theory Spec2Isabelle
  imports Main "HOL-Library.Word" "HOL-Library.List_Lexorder" "HOL-Library.Char_ord"
begin

section \<open>Machine integers and text\<close>

text \<open>
  The counters of the statistics structures are C++ \<open>unsigned int\<close>: 32-bit words whose
  arithmetic wraps around. Byte totals and sizes (\<open>size_t\<close>, \<open>uint64_t\<close>) and the
  timestamps (\<open>int64_t\<close>) are 64-bit words.
\<close>

type_synonym u32 = "32 word"
type_synonym u64 = "64 word"

text \<open>
  Modelled from the spec: \<open>toString\<close> lives in the utilities header, which is not part of
  the sources at hand. The spec says that numerics are stringified; the model prints the
  decimal digits, with a leading minus sign for a negative value.
\<close>

fun digits :: "nat \<Rightarrow> string" where
  "digits n = (if n < 10 then [''0123456789'' ! n]
               else digits (n div 10) @ [''0123456789'' ! (n mod 10)])"

declare digits.simps [simp del]

definition toString :: "int \<Rightarrow> string" where
  "toString i = (if i < 0 then CHR ''-'' # digits (nat (- i)) else digits (nat i))"

section \<open>Ordered maps\<close>

text \<open>
  A \<open>std::map\<close> is modelled by the sequence of its entries in iteration order, which is
  the order of the keys. \<open>map_wf\<close> is the invariant of the container: the keys are
  strictly increasing.
\<close>

type_synonym ('k, 'v) std_map = "('k \<times> 'v) list"

type_synonym uint_uint_dict_t = "(u32, u32) std_map"
type_synonym string_uint_dict_t = "(string, u32) std_map"

definition map_wf :: "('k::linorder, 'v) std_map \<Rightarrow> bool" where
  "map_wf m = sorted_wrt (<) (map fst m)"

text \<open>\<open>m.find(k)\<close>: the entry of the key, if there is one.\<close>

definition map_find :: "'k \<Rightarrow> ('k, 'v) std_map \<Rightarrow> 'v option" where
  "map_find k m = map_of m k"

text \<open>\<open>m[k] = v\<close>: assigns to the entry of the key, inserted at its place if absent.\<close>

fun map_assign :: "'k::linorder \<Rightarrow> 'v \<Rightarrow> ('k, 'v) std_map \<Rightarrow> ('k, 'v) std_map" where
  "map_assign k v [] = [(k, v)]"
| "map_assign k v ((k', v') # m) =
     (if k < k' then (k, v) # (k', v') # m
      else if k = k' then (k, v) # m
      else (k', v') # map_assign k v m)"

text \<open>
  Reading \<open>m[k]\<close> has two parts: the value read (the value-initialised default \<open>d\<close> where
  the key is absent), and the effect on the container, which gains the entry \<open>(k, d)\<close>
  where the key is absent.
\<close>

definition map_at :: "'k \<Rightarrow> 'v \<Rightarrow> ('k, 'v) std_map \<Rightarrow> 'v" where
  "map_at k d m = (case map_find k m of None \<Rightarrow> d | Some v \<Rightarrow> v)"

definition map_touch :: "'k::linorder \<Rightarrow> 'v \<Rightarrow> ('k, 'v) std_map \<Rightarrow> ('k, 'v) std_map" where
  "map_touch k d m = (case map_find k m of None \<Rightarrow> map_assign k d m | Some v \<Rightarrow> m)"

text \<open>\<open>m[k] += c\<close> on a map of counters.\<close>

definition map_add_at :: "'k::linorder \<Rightarrow> u32 \<Rightarrow> ('k, u32) std_map \<Rightarrow> ('k, u32) std_map" where
  "map_add_at k c m = map_assign k (map_at k 0 m + c) m"

section \<open>Distributions\<close>

text \<open>
  \<open>initDistributionKeys\<close>: the loop runs for \<open>i = 1, ..., totalSpot - 1\<close>; \<open>lastkey\<close> is
  the key of the previous round. The products and sums are those of \<open>unsigned int\<close>.
\<close>

definition nextKey :: "bool \<Rightarrow> u32 \<Rightarrow> u32 \<Rightarrow> u32 \<Rightarrow> u32" where
  "nextKey factor firstValue increment lastkey =
     (if factor then (if lastkey = 0 then firstValue else increment * lastkey)
      else (if lastkey = 0 then firstValue else lastkey + increment))"

fun initKeysLoop :: "bool \<Rightarrow> u32 \<Rightarrow> u32 \<Rightarrow> nat \<Rightarrow> u32 \<Rightarrow> uint_uint_dict_t \<Rightarrow> uint_uint_dict_t" where
  "initKeysLoop factor firstValue increment 0 lastkey distribution = distribution"
| "initKeysLoop factor firstValue increment (Suc n) lastkey distribution =
     (let key = nextKey factor firstValue increment lastkey
      in initKeysLoop factor firstValue increment n key (map_assign key 0 distribution))"

definition initDistributionKeys ::
    "u32 \<Rightarrow> u32 \<Rightarrow> u32 \<Rightarrow> uint_uint_dict_t \<Rightarrow> bool \<Rightarrow> uint_uint_dict_t" where
  "initDistributionKeys firstValue increment totalSpot distribution factor =
     initKeysLoop factor firstValue increment (unat totalSpot - 1) 0 (map_assign 0 0 [])"

text \<open>
  The keys that the loop of \<open>initDistributionKeys\<close> generates, in the order of generation.
  The sequence is non-degenerate when these keys and the initial key 0 are pairwise distinct.
\<close>

fun generatedKeys :: "bool \<Rightarrow> u32 \<Rightarrow> u32 \<Rightarrow> nat \<Rightarrow> u32 \<Rightarrow> u32 list" where
  "generatedKeys factor firstValue increment 0 lastkey = []"
| "generatedKeys factor firstValue increment (Suc n) lastkey =
     (let key = nextKey factor firstValue increment lastkey
      in key # generatedKeys factor firstValue increment n key)"

definition nondegenerate :: "u32 \<Rightarrow> u32 \<Rightarrow> u32 \<Rightarrow> bool \<Rightarrow> bool" where
  "nondegenerate firstValue increment totalSpot factor =
     distinct (0 # generatedKeys factor firstValue increment (unat totalSpot - 1) 0)"

text \<open>
  \<open>updateMap\<close>: the iterator stops at the first entry whose key is greater than the value
  (\<open>firstGreater\<close> is its position, the size of the map when it reaches the end). At the
  first position the first entry is counted up, otherwise the entry before the iterator.
\<close>

fun firstGreater :: "u32 \<Rightarrow> uint_uint_dict_t \<Rightarrow> nat" where
  "firstGreater v [] = 0"
| "firstGreater v ((k, c) # m) = (if v < k then 0 else Suc (firstGreater v m))"

definition countUp :: "nat \<Rightarrow> uint_uint_dict_t \<Rightarrow> uint_uint_dict_t" where
  "countUp i m = m[i := (fst (m ! i), snd (m ! i) + 1)]"

definition updateMap :: "uint_uint_dict_t \<Rightarrow> u32 \<Rightarrow> uint_uint_dict_t" where
  "updateMap distribution v =
     (if distribution = [] then distribution
      else (let it = firstGreater v distribution
            in if it = 0 then countUp 0 distribution else countUp (it - 1) distribution))"

definition clearMapValues :: "('k, u32) std_map \<Rightarrow> ('k, u32) std_map" where
  "clearMapValues distribution = map (\<lambda>item. (fst item, 0)) distribution"

text \<open>The sum of all counts of a distribution, as a natural number.\<close>

definition totalCount :: "uint_uint_dict_t \<Rightarrow> nat" where
  "totalCount m = sum_list (map (\<lambda>item. unat (snd item)) m)"

section \<open>Records\<close>

text \<open>
  The protocol record: of a \<open>Value\<close> only the string payload is written by this code, so
  a property map takes a key to that string. The property maps are written and never
  iterated.
\<close>

type_synonym properties = "string \<rightharpoonup> string"

record Record =
  baseType :: string
  iKey :: string
  name :: string
  data :: "properties list"

definition emptyRecord :: Record where
  "emptyRecord = \<lparr> baseType = [], iKey = [], name = [], data = [] \<rparr>"

text \<open>\<open>if (record.data.size() == 0) record.data.push_back(data)\<close>\<close>

definition ensureData :: "Record \<Rightarrow> Record" where
  "ensureData r = (if data r = [] then r\<lparr> data := [Map.empty] \<rparr> else r)"

text \<open>An update of \<open>record.data[0].properties\<close>, once the entry exists.\<close>

definition onProperties :: "(properties \<Rightarrow> properties) \<Rightarrow> Record \<Rightarrow> Record" where
  "onProperties f r = (case data r of [] \<Rightarrow> r | d # ds \<Rightarrow> r\<lparr> data := f d # ds \<rparr>)"

definition insertNonZero :: "properties \<Rightarrow> string \<Rightarrow> int \<Rightarrow> properties" where
  "insertNonZero target key v = (if v \<noteq> 0 then target(key \<mapsto> toString v) else target)"

text \<open>
  \<open>addAggregatedMapToRecordFields\<close> for a map from numbers to counts: the loop appends one
  field per entry to \<open>fieldValue\<close>; \<open>nxt\<close> is the entry after \<open>it\<close> (the
  source's \<open>next\<close>) and \<open>rangeMode\<close> is the source's \<open>range\<close>.
\<close>

fun aggregateLoop :: "bool \<Rightarrow> uint_uint_dict_t \<Rightarrow> string \<Rightarrow> string" where
  "aggregateLoop rangeMode [] fieldValue = fieldValue"
| "aggregateLoop rangeMode [it] fieldValue =
     (if rangeMode
      then fieldValue @ ''>'' @ toString (uint (fst it)) @ '':'' @ toString (uint (snd it))
      else fieldValue @ toString (uint (fst it)) @ '':'' @ toString (uint (snd it)))"
| "aggregateLoop rangeMode (it # nxt # rest) fieldValue =
     aggregateLoop rangeMode (nxt # rest)
       (if rangeMode
        then fieldValue @ toString (uint (fst it)) @ ''-'' @ toString (uint (fst nxt)) @ '':''
               @ toString (uint (snd it)) @ '',''
        else fieldValue @ toString (uint (fst it)) @ '':'' @ toString (uint (snd it)) @ '','')"

definition addAggregatedMapToRecordFields ::
    "Record \<Rightarrow> string \<Rightarrow> uint_uint_dict_t \<Rightarrow> bool \<Rightarrow> Record" where
  "addAggregatedMapToRecordFields r distributionName distribution rangeMode =
     (if distribution = [] then r
      else onProperties (\<lambda>ext. ext(distributionName \<mapsto> aggregateLoop rangeMode distribution []))
             (ensureData r))"

text \<open>
  The serialised form in the words of the specification: the fields of the buckets,
  separated by commas. In range mode an interior bucket is \<open>k-k':v\<close> with \<open>k'\<close> the next
  key and the trailing bucket is \<open>>k:v\<close>; otherwise every bucket is \<open>k:v\<close>.
\<close>

fun commaSeparated :: "string list \<Rightarrow> string" where
  "commaSeparated [] = []"
| "commaSeparated [s] = s"
| "commaSeparated (s # t # ss) = s @ '','' @ commaSeparated (t # ss)"

definition interiorField :: "(u32 \<times> u32) \<Rightarrow> (u32 \<times> u32) \<Rightarrow> string" where
  "interiorField b b' = toString (uint (fst b)) @ ''-'' @ toString (uint (fst b')) @ '':''
                          @ toString (uint (snd b))"

definition trailingField :: "(u32 \<times> u32) \<Rightarrow> string" where
  "trailingField b = ''>'' @ toString (uint (fst b)) @ '':'' @ toString (uint (snd b))"

definition pointField :: "(u32 \<times> u32) \<Rightarrow> string" where
  "pointField b = toString (uint (fst b)) @ '':'' @ toString (uint (snd b))"

definition serializeSpec :: "bool \<Rightarrow> uint_uint_dict_t \<Rightarrow> string" where
  "serializeSpec rangeMode d =
     (if rangeMode
      then commaSeparated (map2 interiorField (butlast d) (tl d) @ [trailingField (last d)])
      else commaSeparated (map pointField d))"

section \<open>The statistics structures\<close>

text \<open>
  The structures are declared in a header that is not part of the sources at hand; their
  fields are those that the engine reads and writes. The maps keyed by an enumeration
  (\<open>EventLatency\<close>) have the enumerator's integer value as key.
\<close>

record LatencyStats =
  maxOfLatencyInMilliSecs :: u32
  minOfLatencyInMilliSecs :: u32
  latencyDistribution :: uint_uint_dict_t

record RecordStats =
  bannedCount :: u32
  receivedCount :: u32
  receivedMetastatsCount :: u32
  sentCount :: u32
  sentCountFromCurrentSession :: u32
  sentCountFromPreviousSession :: u32
  rejectedCount :: u32
  rejectedCountReasonDistribution :: uint_uint_dict_t
  droppedCount :: u32
  overflownCount :: u32
  droppedCountReasonDistribution :: uint_uint_dict_t
  droppedCountPerHttpReturnCode :: uint_uint_dict_t
  semanticToRecordCountMap :: string_uint_dict_t
  semanticToExceptionCountMap :: string_uint_dict_t
  maxOfRecordSizeInBytes :: u32
  minOfRecordSizeInBytes :: u32
  totalRecordsSizeInBytes :: u64
  sizeInKBytesDistribution :: uint_uint_dict_t

record PackageStats =
  totalPkgsToBeAcked :: u32
  totalMetastatsOnlyPkgsToBeAcked :: u32
  totalPkgsNotToBeAcked :: u32
  totalPkgsAcked :: u32
  totalMetastatsOnlyPkgsAcked :: u32
  successPkgsAcked :: u32
  retryPkgsAcked :: u32
  dropPkgsAcked :: u32
  dropPkgsPerHttpReturnCode :: uint_uint_dict_t
  retryPkgsPerHttpReturnCode :: uint_uint_dict_t
  totalBandwidthConsumedInBytes :: u64

record OfflineStorageStats =
  storageFormat :: string
  lastFailureReason :: string
  fileSizeInBytes :: u64
  saveSizeInKBytesDistribution :: uint_uint_dict_t
  overwrittenSizeInKBytesDistribution :: uint_uint_dict_t

record TelemetryStats =
  tenantId :: string
  sessionId :: string
  sessionStartTimestamp :: u64
  statsStartTimestamp :: u64
  session_startup_time_in_millisec :: u64
  statsSequenceNum :: u32
  offlineStorageEnabled :: bool
  resourceManagerEnabled :: bool
  ecsClientEnabled :: bool
  packageStats :: PackageStats
  rttStats :: LatencyStats
  logToSuccessfulSendLatencyPerLatency :: "(int, LatencyStats) std_map"
  recordStats :: RecordStats
  recordStatsPerLatency :: "(int, RecordStats) std_map"
  retriesCountDistribution :: uint_uint_dict_t
  offlineStorageStats :: OfflineStorageStats

text \<open>
  Modelled from the spec: the constructors of the structures are in the missing header.
  A new structure has every counter at zero, every map and string empty, and, as the spec
  says of LatencyStats, the minimum at the maximum representable value and the maximum at 0.
\<close>

definition newLatencyStats :: LatencyStats where
  "newLatencyStats =
     \<lparr> maxOfLatencyInMilliSecs = 0, minOfLatencyInMilliSecs = - 1, latencyDistribution = [] \<rparr>"

definition newRecordStats :: RecordStats where
  "newRecordStats =
     \<lparr> bannedCount = 0, receivedCount = 0, receivedMetastatsCount = 0, sentCount = 0,
       sentCountFromCurrentSession = 0, sentCountFromPreviousSession = 0, rejectedCount = 0,
       rejectedCountReasonDistribution = [], droppedCount = 0, overflownCount = 0,
       droppedCountReasonDistribution = [], droppedCountPerHttpReturnCode = [],
       semanticToRecordCountMap = [], semanticToExceptionCountMap = [],
       maxOfRecordSizeInBytes = 0, minOfRecordSizeInBytes = - 1, totalRecordsSizeInBytes = 0,
       sizeInKBytesDistribution = [] \<rparr>"

definition newPackageStats :: PackageStats where
  "newPackageStats =
     \<lparr> totalPkgsToBeAcked = 0, totalMetastatsOnlyPkgsToBeAcked = 0, totalPkgsNotToBeAcked = 0,
       totalPkgsAcked = 0, totalMetastatsOnlyPkgsAcked = 0, successPkgsAcked = 0,
       retryPkgsAcked = 0, dropPkgsAcked = 0, dropPkgsPerHttpReturnCode = [],
       retryPkgsPerHttpReturnCode = [], totalBandwidthConsumedInBytes = 0 \<rparr>"

definition newOfflineStorageStats :: OfflineStorageStats where
  "newOfflineStorageStats =
     \<lparr> storageFormat = [], lastFailureReason = [], fileSizeInBytes = 0,
       saveSizeInKBytesDistribution = [], overwrittenSizeInKBytesDistribution = [] \<rparr>"

definition newTelemetryStats :: TelemetryStats where
  "newTelemetryStats =
     \<lparr> tenantId = [], sessionId = [], sessionStartTimestamp = 0, statsStartTimestamp = 0,
       session_startup_time_in_millisec = 0, statsSequenceNum = 0,
       offlineStorageEnabled = False, resourceManagerEnabled = False, ecsClientEnabled = False,
       packageStats = newPackageStats, rttStats = newLatencyStats,
       logToSuccessfulSendLatencyPerLatency = [], recordStats = newRecordStats,
       recordStatsPerLatency = [], retriesCountDistribution = [],
       offlineStorageStats = newOfflineStorageStats \<rparr>"

text \<open>
  Modelled from the spec: the \<open>Reset\<close> members of the structures are in the missing
  header. The spec says that a reset resets all counters and histograms of the row and that
  resetting a histogram zeroes every count and keeps the key set; a minimum goes back to
  the maximum representable value and a maximum to 0. Strings are neither counters nor
  histograms and stay.
\<close>

definition LatencyStats_Reset :: "LatencyStats \<Rightarrow> LatencyStats" where
  "LatencyStats_Reset s =
     s\<lparr> maxOfLatencyInMilliSecs := 0, minOfLatencyInMilliSecs := - 1,
        latencyDistribution := clearMapValues (latencyDistribution s) \<rparr>"

definition RecordStats_Reset :: "RecordStats \<Rightarrow> RecordStats" where
  "RecordStats_Reset s =
     s\<lparr> bannedCount := 0, receivedCount := 0, receivedMetastatsCount := 0, sentCount := 0,
        sentCountFromCurrentSession := 0, sentCountFromPreviousSession := 0,
        rejectedCount := 0,
        rejectedCountReasonDistribution := clearMapValues (rejectedCountReasonDistribution s),
        droppedCount := 0, overflownCount := 0,
        droppedCountReasonDistribution := clearMapValues (droppedCountReasonDistribution s),
        droppedCountPerHttpReturnCode := clearMapValues (droppedCountPerHttpReturnCode s),
        semanticToRecordCountMap := clearMapValues (semanticToRecordCountMap s),
        semanticToExceptionCountMap := clearMapValues (semanticToExceptionCountMap s),
        maxOfRecordSizeInBytes := 0, minOfRecordSizeInBytes := - 1,
        totalRecordsSizeInBytes := 0,
        sizeInKBytesDistribution := clearMapValues (sizeInKBytesDistribution s) \<rparr>"

definition PackageStats_Reset :: "PackageStats \<Rightarrow> PackageStats" where
  "PackageStats_Reset s =
     s\<lparr> totalPkgsToBeAcked := 0, totalMetastatsOnlyPkgsToBeAcked := 0,
        totalPkgsNotToBeAcked := 0, totalPkgsAcked := 0, totalMetastatsOnlyPkgsAcked := 0,
        successPkgsAcked := 0, retryPkgsAcked := 0, dropPkgsAcked := 0,
        dropPkgsPerHttpReturnCode := clearMapValues (dropPkgsPerHttpReturnCode s),
        retryPkgsPerHttpReturnCode := clearMapValues (retryPkgsPerHttpReturnCode s),
        totalBandwidthConsumedInBytes := 0 \<rparr>"

definition OfflineStorageStats_Reset :: "OfflineStorageStats \<Rightarrow> OfflineStorageStats" where
  "OfflineStorageStats_Reset s =
     s\<lparr> fileSizeInBytes := 0,
        saveSizeInKBytesDistribution := clearMapValues (saveSizeInKBytesDistribution s),
        overwrittenSizeInKBytesDistribution :=
          clearMapValues (overwrittenSizeInKBytesDistribution s) \<rparr>"

section \<open>The engine\<close>

text \<open>
  The enumerators that the engine names are declared in headers that are not part of the
  sources at hand; their values are parameters of the model.
\<close>

record Enumerators =
  REJECTED_REASON_INVALID_CLIENT_MESSAGE_TYPE :: u32
  REJECTED_REASON_REQUIRED_ARGUMENT_MISSING :: u32
  REJECTED_REASON_EVENT_NAME_MISSING :: u32
  REJECTED_REASON_VALIDATION_FAILED :: u32
  REJECTED_REASON_OLD_RECORD_VERSION :: u32
  REJECTED_REASON_EVENT_EXPIRED :: u32
  REJECTED_REASON_SERVER_DECLINED :: u32
  REJECTED_REASON_TENANT_KILLED :: u32
  REJECTED_REASON_EVENT_SIZE_LIMIT_EXCEEDED :: u32
  DROPPED_REASON_OFFLINE_STORAGE_SAVE_FAILED :: u32
  DROPPED_REASON_RETRY_EXCEEDED :: u32
  EventLatency_Normal :: int
  EventLatency_CostDeferred :: int
  EventLatency_RealTime :: int
  EventLatency_Max :: int

datatype RollUpKind =
    ACT_STATS_ROLLUP_KIND_START
  | ACT_STATS_ROLLUP_KIND_STOP
  | ACT_STATS_ROLLUP_KIND_ONGOING
  | ACT_STATS_ROLLUP_KIND_OTHER

fun RollUpKindToString :: "RollUpKind \<Rightarrow> string" where
  "RollUpKindToString ACT_STATS_ROLLUP_KIND_START = ''start''"
| "RollUpKindToString ACT_STATS_ROLLUP_KIND_STOP = ''stop''"
| "RollUpKindToString ACT_STATS_ROLLUP_KIND_ONGOING = ''ongoing''"
| "RollUpKindToString ACT_STATS_ROLLUP_KIND_OTHER = ''unknown''"

record StatsConfig =
  rtt_first_duration_in_millisecs :: u32
  rtt_next_factor :: u32
  rtt_total_spots :: u32
  latency_first_duration_in_millisecs :: u32
  latency_next_factor :: u32
  latency_total_spots :: u32
  record_size_first_in_kb :: u32
  record_size_next_factor :: u32
  record_size_total_spots :: u32
  storage_size_first_in_kb :: u32
  storage_size_next_factor :: u32
  storage_size_total_spots :: u32

record RuntimeConfig =
  MetaStatsTenantToken :: string
  MetaStatsSendIntervalSec :: u32

text \<open>
  The state of the engine. The clock and the generator of session identifiers are outside
  the engine: an operation that reads the clock takes the time \<open>now\<close> as an argument
  (every reading within one call gives that time), and the constructor takes the
  identifier.
\<close>

record MetaStats =
  m_config :: RuntimeConfig
  m_statsConfig :: StatsConfig
  m_telemetryStats :: TelemetryStats
  m_telemetryTenantStats :: "(string, TelemetryStats) std_map"
  m_sessionId :: string

text \<open>\<open>token.substr(0, token.find('-'))\<close>: the whole token where it has no dash.\<close>

definition tenantIdOf :: "string \<Rightarrow> string" where
  "tenantIdOf token = takeWhile (\<lambda>c. c \<noteq> CHR ''-'') token"

text \<open>\<open>resetStats\<close>: the body of the loop, for one tenant row.\<close>

definition resetTenantStats :: "StatsConfig \<Rightarrow> string \<Rightarrow> u64 \<Rightarrow> bool \<Rightarrow> TelemetryStats \<Rightarrow> TelemetryStats" where
  "resetTenantStats cfg sid now start telemetryStats =
     (let t1 = packageStats_update PackageStats_Reset telemetryStats;
          t2 = rttStats_update LatencyStats_Reset t1;
          t3 = t2\<lparr> logToSuccessfulSendLatencyPerLatency := [] \<rparr>;
          t4 = recordStats_update RecordStats_Reset t3;
          t5 = recordStatsPerLatency_update (map (\<lambda>kv. (fst kv, RecordStats_Reset (snd kv)))) t4;
          t6 = offlineStorageStats_update OfflineStorageStats_Reset t5;
          t7 = t6\<lparr> statsStartTimestamp := now, sessionId := sid \<rparr>
      in if start then
           (let s1 = t7\<lparr> statsSequenceNum := 0, sessionStartTimestamp := statsStartTimestamp t7 \<rparr>;
                s2 = (rttStats_update \<circ> latencyDistribution_update)
                       (\<lambda>d. initDistributionKeys (rtt_first_duration_in_millisecs cfg)
                              (rtt_next_factor cfg) (rtt_total_spots cfg) d True) s1;
                s3 = logToSuccessfulSendLatencyPerLatency_update
                       (map (\<lambda>item. (fst item, latencyDistribution_update
                              (\<lambda>d. initDistributionKeys (latency_first_duration_in_millisecs cfg)
                                     (latency_next_factor cfg) (latency_total_spots cfg) d True)
                              (snd item)))) s2;
                s4 = (recordStats_update \<circ> sizeInKBytesDistribution_update)
                       (\<lambda>d. initDistributionKeys (record_size_first_in_kb cfg)
                              (record_size_next_factor cfg) (record_size_total_spots cfg) d True) s3
            in if offlineStorageEnabled s4 then
                 (offlineStorageStats_update
                    (\<lambda>st. st\<lparr> saveSizeInKBytesDistribution :=
                                initDistributionKeys (storage_size_first_in_kb cfg)
                                  (storage_size_next_factor cfg) (storage_size_total_spots cfg)
                                  (saveSizeInKBytesDistribution st) True,
                              overwrittenSizeInKBytesDistribution :=
                                initDistributionKeys (storage_size_first_in_kb cfg)
                                  (storage_size_next_factor cfg) (storage_size_total_spots cfg)
                                  (overwrittenSizeInKBytesDistribution st) True \<rparr>) s4)
               else s4)
         else
           (let o1 = t7\<lparr> statsSequenceNum := statsSequenceNum t7 + 1 \<rparr>;
                o2 = packageStats_update
                       (\<lambda>p. p\<lparr> dropPkgsPerHttpReturnCode := [],
                                retryPkgsPerHttpReturnCode := [] \<rparr>) o1;
                o3 = o2\<lparr> retriesCountDistribution := [] \<rparr>;
                o4 = (rttStats_update \<circ> latencyDistribution_update) clearMapValues o3;
                o5 = o4\<lparr> logToSuccessfulSendLatencyPerLatency := [] \<rparr>;
                o6 = recordStats_update
                       (\<lambda>r. r\<lparr> semanticToRecordCountMap :=
                                  clearMapValues (semanticToRecordCountMap r),
                                semanticToExceptionCountMap :=
                                  clearMapValues (semanticToExceptionCountMap r),
                                sizeInKBytesDistribution :=
                                  clearMapValues (sizeInKBytesDistribution r),
                                droppedCountPerHttpReturnCode := [] \<rparr>) o5
            in if offlineStorageEnabled o6 then
                 (offlineStorageStats_update
                    (\<lambda>st. st\<lparr> saveSizeInKBytesDistribution :=
                                clearMapValues (saveSizeInKBytesDistribution st),
                              overwrittenSizeInKBytesDistribution :=
                                clearMapValues (overwrittenSizeInKBytesDistribution st) \<rparr>) o6)
               else o6))"

definition resetStats :: "MetaStats \<Rightarrow> u64 \<Rightarrow> bool \<Rightarrow> MetaStats" where
  "resetStats ms now start =
     ms\<lparr> m_telemetryTenantStats :=
           map (\<lambda>tenantStats. (fst tenantStats,
                  resetTenantStats (m_statsConfig ms) (m_sessionId ms) now start (snd tenantStats)))
               (m_telemetryTenantStats ms) \<rparr>"

subsection \<open>The projection of a row into a record\<close>

text \<open>
  The remaining helpers that write a map of the row into the record. Reading \<open>m[reason]\<close>
  in \<open>addRecordsPerRejectedReasonToRecordFields\<close> also inserts the reason into the map,
  which the function takes by reference: the map is returned with the record.
\<close>

text \<open>
  The source overloads \<open>addAggregatedMapToRecordFields\<close> for a map from names to counts;
  the overload is \<open>addAggregatedNamesToRecordFields\<close> here.
\<close>

fun aggregateNamesLoop :: "string_uint_dict_t \<Rightarrow> string \<Rightarrow> string" where
  "aggregateNamesLoop [] fieldValue = fieldValue"
| "aggregateNamesLoop [it] fieldValue = fieldValue @ fst it @ '':'' @ toString (uint (snd it))"
| "aggregateNamesLoop (it # nxt # rest) fieldValue =
     aggregateNamesLoop (nxt # rest)
       (fieldValue @ fst it @ '':'' @ toString (uint (snd it)) @ '','')"

definition addAggregatedNamesToRecordFields ::
    "Record \<Rightarrow> string \<Rightarrow> string_uint_dict_t \<Rightarrow> Record" where
  "addAggregatedNamesToRecordFields r distributionName distribution =
     (if distribution = [] then r
      else onProperties (\<lambda>ext. ext(distributionName \<mapsto> aggregateNamesLoop distribution []))
             (ensureData r))"

definition addCountsPerHttpReturnCodeToRecordFields ::
    "Record \<Rightarrow> string \<Rightarrow> uint_uint_dict_t \<Rightarrow> Record" where
  "addCountsPerHttpReturnCodeToRecordFields r prefix countsPerHttpReturnCodeMap =
     (if countsPerHttpReturnCodeMap = [] then r
      else fold (\<lambda>item. onProperties (\<lambda>ext.
                   insertNonZero ext (prefix @ ''_'' @ toString (uint (fst item)))
                     (uint (snd item))))
             countsPerHttpReturnCodeMap (ensureData r))"

definition sequence :: "('s \<Rightarrow> 's) list \<Rightarrow> 's \<Rightarrow> 's" where
  "sequence steps s = fold (\<lambda>step. step) steps s"

definition insertReason :: "string \<Rightarrow> u32 \<Rightarrow> Record \<times> uint_uint_dict_t \<Rightarrow> Record \<times> uint_uint_dict_t" where
  "insertReason key reason s =
     (let m = map_touch reason 0 (snd s)
      in (onProperties (\<lambda>extension. insertNonZero extension key (uint (map_at reason 0 m))) (fst s),
          m))"

definition addRecordsPerRejectedReasonToRecordFields ::
    "Enumerators \<Rightarrow> Record \<Rightarrow> uint_uint_dict_t \<Rightarrow> Record \<times> uint_uint_dict_t" where
  "addRecordsPerRejectedReasonToRecordFields E r recordsRejectedCountByReasonDistribution =
     sequence
       [insertReason ''r_inv'' (REJECTED_REASON_INVALID_CLIENT_MESSAGE_TYPE E),
        insertReason ''r_inv'' (REJECTED_REASON_REQUIRED_ARGUMENT_MISSING E),
        insertReason ''r_inv'' (REJECTED_REASON_EVENT_NAME_MISSING E),
        insertReason ''r_inv'' (REJECTED_REASON_VALIDATION_FAILED E),
        insertReason ''r_inv'' (REJECTED_REASON_OLD_RECORD_VERSION E),
        insertReason ''r_exp'' (REJECTED_REASON_EVENT_EXPIRED E),
        insertReason ''r_403'' (REJECTED_REASON_SERVER_DECLINED E),
        insertReason ''r_kl'' (REJECTED_REASON_TENANT_KILLED E),
        insertReason ''r_size'' (REJECTED_REASON_EVENT_SIZE_LIMIT_EXCEEDED E)]
       (ensureData r, recordsRejectedCountByReasonDistribution)"

text \<open>
  \<open>privateSnapStatsToRecord\<close> is a sequence of statements on the record under construction
  and the row, which it takes by reference. The statements are:
  \<^item> \<open>put key value\<close> for \<open>insertNonZero(ext, key, value)\<close>, where \<open>ext\<close> is the property map
    of the record and the value is read from the row;
  \<^item> \<open>assign key value\<close> for \<open>ext[key] = value\<close>;
  \<^item> \<open>whenever condition statements\<close> for \<open>if (condition) { statements }\<close>;
  \<^item> \<open>onRecord f\<close> for a helper that writes a map of the row into the record;
  \<^item> \<open>bindRecordStats latency\<close> and \<open>bindLatencyStats latency\<close> for binding a reference
    to \<open>recordStatsPerLatency[latency]\<close> and \<open>logToSuccessfulSendLatencyPerLatency[latency]\<close>,
    which inserts a new entry where the key is absent; \<open>perLatency\<close> and \<open>sendLatency\<close>
    read through such a reference.
\<close>

type_synonym snapshot = "Record \<times> TelemetryStats"

definition put :: "string \<Rightarrow> (TelemetryStats \<Rightarrow> int) \<Rightarrow> snapshot \<Rightarrow> snapshot" where
  "put key val s = (onProperties (\<lambda>ext. insertNonZero ext key (val (snd s))) (fst s), snd s)"

definition assign :: "string \<Rightarrow> (TelemetryStats \<Rightarrow> string) \<Rightarrow> snapshot \<Rightarrow> snapshot" where
  "assign key val s = (onProperties (\<lambda>ext. ext(key \<mapsto> val (snd s))) (fst s), snd s)"

definition whenever :: "(TelemetryStats \<Rightarrow> bool) \<Rightarrow> (snapshot \<Rightarrow> snapshot) list \<Rightarrow> snapshot \<Rightarrow> snapshot" where
  "whenever condition steps s = (if condition (snd s) then sequence steps s else s)"

definition onRecord :: "(TelemetryStats \<Rightarrow> Record \<Rightarrow> Record) \<Rightarrow> snapshot \<Rightarrow> snapshot" where
  "onRecord f s = (f (snd s) (fst s), snd s)"

definition bindRecordStats :: "int \<Rightarrow> snapshot \<Rightarrow> snapshot" where
  "bindRecordStats latency s =
     (fst s, recordStatsPerLatency_update (map_touch latency newRecordStats) (snd s))"

definition bindLatencyStats :: "int \<Rightarrow> snapshot \<Rightarrow> snapshot" where
  "bindLatencyStats latency s =
     (fst s, logToSuccessfulSendLatencyPerLatency_update (map_touch latency newLatencyStats) (snd s))"

definition perLatency :: "int \<Rightarrow> TelemetryStats \<Rightarrow> RecordStats" where
  "perLatency latency t = map_at latency newRecordStats (recordStatsPerLatency t)"

definition sendLatency :: "int \<Rightarrow> TelemetryStats \<Rightarrow> LatencyStats" where
  "sendLatency latency t = map_at latency newLatencyStats (logToSuccessfulSendLatencyPerLatency t)"

definition rejectedReasons :: "Enumerators \<Rightarrow> snapshot \<Rightarrow> snapshot" where
  "rejectedReasons E s =
     (let res = addRecordsPerRejectedReasonToRecordFields E (fst s)
                  (rejectedCountReasonDistribution (recordStats (snd s)))
      in (fst res,
          (recordStats_update \<circ> rejectedCountReasonDistribution_update) (\<lambda>m. snd res) (snd s)))"

definition putDroppedReason :: "string \<Rightarrow> u32 \<Rightarrow> snapshot \<Rightarrow> snapshot" where
  "putDroppedReason key reason s =
     (let t = (recordStats_update \<circ> droppedCountReasonDistribution_update)
                (map_touch reason 0) (snd s)
      in (onProperties (\<lambda>ext. insertNonZero ext key
             (uint (map_at reason 0 (droppedCountReasonDistribution (recordStats t))))) (fst s),
          t))"

definition snapSessionFields :: "MetaStats \<Rightarrow> u64 \<Rightarrow> RollUpKind \<Rightarrow> (snapshot \<Rightarrow> snapshot) list" where
  "snapSessionFields ms now rollupKind =
     [put ''s_stime'' (\<lambda>t. sint (sessionStartTimestamp t)),
      put ''stats_stime'' (\<lambda>t. sint (statsStartTimestamp t)),
      put ''s_Firststime'' (\<lambda>t. sint (session_startup_time_in_millisec t)),
      put ''stats_etime'' (\<lambda>t. sint now),
      assign ''stats_rollup_kind'' (\<lambda>t. RollUpKindToString rollupKind),
      put ''st_freq'' (\<lambda>t. uint (MetaStatsSendIntervalSec (m_config ms))),
      whenever offlineStorageEnabled
        [assign ''off_type'' (\<lambda>t. storageFormat (offlineStorageStats t)),
         whenever (\<lambda>t. lastFailureReason (offlineStorageStats t) \<noteq> [])
           [assign ''off_last_failure'' (\<lambda>t. lastFailureReason (offlineStorageStats t))],
         put ''config_off_size'' (\<lambda>t. uint (fileSizeInBytes (offlineStorageStats t)))]]"

definition snapPackageStats :: "(snapshot \<Rightarrow> snapshot) list" where
  "snapPackageStats =
     [put ''rqs_not_to_be_acked'' (\<lambda>t. uint (totalPkgsNotToBeAcked (packageStats t))),
      put ''rqs_to_be_acked'' (\<lambda>t. uint (totalPkgsToBeAcked (packageStats t))),
      put ''rqs_acked'' (\<lambda>t. uint (totalPkgsAcked (packageStats t))),
      put ''rqs_acked_succ'' (\<lambda>t. uint (successPkgsAcked (packageStats t))),
      put ''rqs_acked_ret'' (\<lambda>t. uint (retryPkgsAcked (packageStats t))),
      put ''rqs_acked_drp'' (\<lambda>t. uint (dropPkgsAcked (packageStats t))),
      onRecord (\<lambda>t r. addCountsPerHttpReturnCodeToRecordFields r ''rqs_acked_drp_on_HTTP''
                        (dropPkgsPerHttpReturnCode (packageStats t))),
      onRecord (\<lambda>t r. addCountsPerHttpReturnCodeToRecordFields r ''rqs_acked_ret_on_HTTP''
                        (retryPkgsPerHttpReturnCode (packageStats t))),
      put ''rm_bw_bytes_consumed_count'' (\<lambda>t. uint (totalBandwidthConsumedInBytes (packageStats t))),
      whenever (\<lambda>t. totalPkgsAcked (packageStats t) > 0)
        [onRecord (\<lambda>t r. addAggregatedMapToRecordFields r
                           ''rqs_fail_on_HTTP_retries_count_distribution''
                           (retriesCountDistribution t) False)],
      whenever (\<lambda>t. successPkgsAcked (packageStats t) > 0)
        [put ''rtt_millisec_max'' (\<lambda>t. uint (maxOfLatencyInMilliSecs (rttStats t))),
         put ''rtt_millisec_min'' (\<lambda>t. uint (minOfLatencyInMilliSecs (rttStats t))),
         onRecord (\<lambda>t r. addAggregatedMapToRecordFields r ''rtt_millisec_distribution''
                           (latencyDistribution (rttStats t)) True)]]"

definition snapRecordStats :: "Enumerators \<Rightarrow> (snapshot \<Rightarrow> snapshot) list" where
  "snapRecordStats E =
     [put ''r_ban'' (\<lambda>t. uint (bannedCount (recordStats t))),
      put ''rcv'' (\<lambda>t. uint (receivedCount (recordStats t))),
      put ''snt'' (\<lambda>t. uint (sentCount (recordStats t))),
      put ''rcds_sent_curr_session'' (\<lambda>t. uint (sentCountFromCurrentSession (recordStats t))),
      put ''rcds_sent_prev_session'' (\<lambda>t. uint (sentCountFromPreviousSession (recordStats t))),
      put ''rej'' (\<lambda>t. uint (rejectedCount (recordStats t))),
      rejectedReasons E,
      put ''drp'' (\<lambda>t. uint (droppedCount (recordStats t))),
      put ''d_disk_full'' (\<lambda>t. uint (overflownCount (recordStats t))),
      putDroppedReason ''d_io_fail'' (DROPPED_REASON_OFFLINE_STORAGE_SAVE_FAILED E),
      putDroppedReason ''d_retry_lmt'' (DROPPED_REASON_RETRY_EXCEEDED E),
      onRecord (\<lambda>t r. addCountsPerHttpReturnCodeToRecordFields r ''rcds_drp_on_HTTP''
                        (droppedCountPerHttpReturnCode (recordStats t))),
      onRecord (\<lambda>t r. addAggregatedNamesToRecordFields r ''exceptions_per_eventtype_count''
                        (semanticToExceptionCountMap (recordStats t))),
      onRecord (\<lambda>t r. addAggregatedNamesToRecordFields r ''rcds_per_eventtype_count''
                        (semanticToRecordCountMap (recordStats t))),
      whenever (\<lambda>t. receivedCount (recordStats t) > 0)
        [put ''rcd_size_bytes_max'' (\<lambda>t. uint (maxOfRecordSizeInBytes (recordStats t))),
         put ''rcd_size_bytes_min'' (\<lambda>t. uint (minOfRecordSizeInBytes (recordStats t))),
         put ''rcds_received_size_bytes'' (\<lambda>t. uint (totalRecordsSizeInBytes (recordStats t))),
         onRecord (\<lambda>t r. addAggregatedMapToRecordFields r ''rcd_size_kb_distribution''
                           (sizeInKBytesDistribution (recordStats t)) True)]]"

definition snapLowPriority :: "Enumerators \<Rightarrow> (snapshot \<Rightarrow> snapshot) list" where
  "snapLowPriority E =
     (let low = perLatency (EventLatency_Normal E); lat = sendLatency (EventLatency_Normal E) in
      [bindRecordStats (EventLatency_Normal E),
       put ''ln_r_ban'' (\<lambda>t. uint (bannedCount (low t))),
       put ''ln_rcv'' (\<lambda>t. uint (receivedCount (low t))),
       put ''ln_snt'' (\<lambda>t. uint (sentCount (low t))),
       put ''ln_rcds_sent_count_current_session'' (\<lambda>t. uint (sentCountFromCurrentSession (low t))),
       put ''ln_rcds_sent_count_previous_sessions'' (\<lambda>t. uint (sentCountFromPreviousSession (low t))),
       put ''ln_drp'' (\<lambda>t. uint (droppedCount (low t))),
       put ''ln_d_disk_full'' (\<lambda>t. uint (overflownCount (low t))),
       put ''ln_rej'' (\<lambda>t. uint (rejectedCount (low t))),
       whenever (\<lambda>t. receivedCount (low t) > 0)
         [put ''ln_rcds_received_size_bytes'' (\<lambda>t. uint (totalRecordsSizeInBytes (low t)))],
       whenever (\<lambda>t. sentCount (low t) > 0)
         [bindLatencyStats (EventLatency_Normal E),
          put ''ln_log_to_successful_send_latency_millisec_max''
            (\<lambda>t. uint (maxOfLatencyInMilliSecs (lat t))),
          put ''n_log_to_successful_send_latency_millisec_min''
            (\<lambda>t. uint (minOfLatencyInMilliSecs (lat t))),
          onRecord (\<lambda>t r. addAggregatedMapToRecordFields r
                            ''ln_log_to_successful_send_latency_millisec_distribution''
                            (latencyDistribution (lat t)) True)]])"

definition snapNormalPriority :: "Enumerators \<Rightarrow> (snapshot \<Rightarrow> snapshot) list" where
  "snapNormalPriority E =
     (let normal = perLatency (EventLatency_CostDeferred E);
          lat = sendLatency (EventLatency_CostDeferred E) in
      [bindRecordStats (EventLatency_CostDeferred E),
       put ''ld_r_ban'' (\<lambda>t. uint (bannedCount (normal t))),
       put ''ld_rcv'' (\<lambda>t. uint (receivedCount (normal t))),
       put ''ld_snt'' (\<lambda>t. uint (sentCount (normal t))),
       put ''ld_rcds_sent_count_current_session'' (\<lambda>t. uint (sentCountFromCurrentSession (normal t))),
       put ''ld_rcds_sent_count_previous_sessions'' (\<lambda>t. uint (sentCountFromPreviousSession (normal t))),
       put ''ld_drp'' (\<lambda>t. uint (droppedCount (normal t))),
       put ''ld_d_disk_full'' (\<lambda>t. uint (overflownCount (normal t))),
       put ''ld_rej'' (\<lambda>t. uint (rejectedCount (normal t))),
       whenever (\<lambda>t. receivedCount (normal t) > 0)
         [put ''ld_rcds_received_size_bytes'' (\<lambda>t. uint (totalRecordsSizeInBytes (normal t)))],
       whenever (\<lambda>t. sentCount (normal t) > 0)
         [bindLatencyStats (EventLatency_CostDeferred E),
          put ''ld_log_to_successful_send_latency_millisec_max''
            (\<lambda>t. uint (maxOfLatencyInMilliSecs (lat t))),
          put ''ld_log_to_successful_send_latency_millisec_min''
            (\<lambda>t. uint (minOfLatencyInMilliSecs (lat t))),
          onRecord (\<lambda>t r. addAggregatedMapToRecordFields r
                            ''ld_log_to_successful_send_latency_millisec_distribution''
                            (latencyDistribution (lat t)) True)]])"

definition snapHighPriority :: "Enumerators \<Rightarrow> (snapshot \<Rightarrow> snapshot) list" where
  "snapHighPriority E =
     (let high = perLatency (EventLatency_RealTime E);
          normal = perLatency (EventLatency_CostDeferred E);
          lat = sendLatency (EventLatency_RealTime E) in
      [bindRecordStats (EventLatency_RealTime E),
       put ''lr_r_ban'' (\<lambda>t. uint (bannedCount (high t))),
       put ''lr_rcv'' (\<lambda>t. uint (receivedCount (high t))),
       put ''lr_snt'' (\<lambda>t. uint (sentCount (high t))),
       put ''lr_rcds_sent_count_current_session'' (\<lambda>t. uint (sentCountFromCurrentSession (high t))),
       put ''lr_rcds_sent_count_previous_sessions'' (\<lambda>t. uint (sentCountFromPreviousSession (high t))),
       put ''lr_drp'' (\<lambda>t. uint (droppedCount (high t))),
       put ''ld_d_disk_full'' (\<lambda>t. uint (overflownCount (normal t))),
       put ''lr_rej'' (\<lambda>t. uint (rejectedCount (high t))),
       whenever (\<lambda>t. receivedCount (high t) > 0)
         [put ''lr_rcds_received_size_bytes'' (\<lambda>t. uint (totalRecordsSizeInBytes (high t)))],
       whenever (\<lambda>t. sentCount (high t) > 0)
         [bindLatencyStats (EventLatency_RealTime E),
          put ''lr_log_to_successful_send_latency_millisec_max''
            (\<lambda>t. uint (maxOfLatencyInMilliSecs (lat t))),
          put ''lr_log_to_successful_send_latency_millisec_min''
            (\<lambda>t. uint (minOfLatencyInMilliSecs (lat t))),
          onRecord (\<lambda>t r. addAggregatedMapToRecordFields r
                            ''lr_log_to_successful_send_latency_millisec_distribution''
                            (latencyDistribution (lat t)) True)]])"

definition snapImmediatePriority :: "Enumerators \<Rightarrow> (snapshot \<Rightarrow> snapshot) list" where
  "snapImmediatePriority E =
     (let immediate = perLatency (EventLatency_Max E); lat = sendLatency (EventLatency_Max E) in
      [bindRecordStats (EventLatency_Max E),
       put ''lm_r_ban'' (\<lambda>t. uint (bannedCount (immediate t))),
       put ''lm_rcv'' (\<lambda>t. uint (receivedCount (immediate t))),
       put ''lm_snt'' (\<lambda>t. uint (sentCount (immediate t))),
       put ''lm_rcds_sent_count_current_session'' (\<lambda>t. uint (sentCountFromCurrentSession (immediate t))),
       put ''lm_rcds_sent_count_previous_sessions'' (\<lambda>t. uint (sentCountFromPreviousSession (immediate t))),
       put ''lm_drp'' (\<lambda>t. uint (droppedCount (immediate t))),
       put ''lm_snt'' (\<lambda>t. uint (rejectedCount (immediate t))),
       whenever (\<lambda>t. receivedCount (immediate t) > 0)
         [put ''lm_rcds_received_size_bytes'' (\<lambda>t. uint (totalRecordsSizeInBytes (immediate t)))],
       whenever (\<lambda>t. sentCount (immediate t) > 0)
         [bindLatencyStats (EventLatency_Max E),
          put ''lm_log_to_successful_send_latency_millisec_max''
            (\<lambda>t. uint (maxOfLatencyInMilliSecs (lat t))),
          put ''lm_log_to_successful_send_latency_millisec_min''
            (\<lambda>t. uint (minOfLatencyInMilliSecs (lat t))),
          onRecord (\<lambda>t r. addAggregatedMapToRecordFields r
                            ''lm_log_to_successful_send_latency_millisec_distribution''
                            (latencyDistribution (lat t)) True)]])"

text \<open>
  The record starts with its base type, one property map holding the session identifier,
  the key of the statistics tenant and its name; the statements follow. The source appends
  the finished record to the list of records, which the caller does here.
\<close>

definition startRecord :: "MetaStats \<Rightarrow> Record" where
  "startRecord ms =
     \<lparr> baseType = ''act_stats'',
       iKey = ''o:'' @ tenantIdOf (MetaStatsTenantToken (m_config ms)),
       name = ''act_stats'',
       data = [[''act_stats_id'' \<mapsto> m_sessionId ms]] \<rparr>"

definition privateSnapStatsToRecord ::
    "Enumerators \<Rightarrow> MetaStats \<Rightarrow> u64 \<Rightarrow> RollUpKind \<Rightarrow> TelemetryStats \<Rightarrow> Record \<times> TelemetryStats" where
  "privateSnapStatsToRecord E ms now rollupKind telemetryStats =
     sequence
       (snapSessionFields ms now rollupKind @ snapPackageStats @ snapRecordStats E
          @ snapLowPriority E @ snapNormalPriority E @ snapHighPriority E
          @ snapImmediatePriority E)
       (startRecord ms, telemetryStats)"

text \<open>
  The effect of the projection on the row, in the words of the frame claim: every
  rejection reason and dropped reason that the projection reads gains an entry with count
  0 where it has none; every latency class gains a new entry of per-class record
  statistics where it has none and, when records of that class were sent, a new entry of
  send-latency statistics where it has none. Nothing else of the row changes.
\<close>

definition snapshotRejectedReasons :: "Enumerators \<Rightarrow> u32 list" where
  "snapshotRejectedReasons E =
     [REJECTED_REASON_INVALID_CLIENT_MESSAGE_TYPE E, REJECTED_REASON_REQUIRED_ARGUMENT_MISSING E,
      REJECTED_REASON_EVENT_NAME_MISSING E, REJECTED_REASON_VALIDATION_FAILED E,
      REJECTED_REASON_OLD_RECORD_VERSION E, REJECTED_REASON_EVENT_EXPIRED E,
      REJECTED_REASON_SERVER_DECLINED E, REJECTED_REASON_TENANT_KILLED E,
      REJECTED_REASON_EVENT_SIZE_LIMIT_EXCEEDED E]"

definition snapshotDroppedReasons :: "Enumerators \<Rightarrow> u32 list" where
  "snapshotDroppedReasons E =
     [DROPPED_REASON_OFFLINE_STORAGE_SAVE_FAILED E, DROPPED_REASON_RETRY_EXCEEDED E]"

definition snapshotLatencies :: "Enumerators \<Rightarrow> int list" where
  "snapshotLatencies E =
     [EventLatency_Normal E, EventLatency_CostDeferred E, EventLatency_RealTime E,
      EventLatency_Max E]"

definition touchAll :: "'k::linorder list \<Rightarrow> 'v \<Rightarrow> ('k, 'v) std_map \<Rightarrow> ('k, 'v) std_map" where
  "touchAll ks d m = fold (\<lambda>k. map_touch k d) ks m"

definition afterPriority :: "int \<Rightarrow> TelemetryStats \<Rightarrow> TelemetryStats" where
  "afterPriority latency t =
     logToSuccessfulSendLatencyPerLatency_update
       (\<lambda>m. if sentCount (perLatency latency t) > 0
            then map_touch latency newLatencyStats m else m)
       (recordStatsPerLatency_update (map_touch latency newRecordStats) t)"

definition afterReasons :: "Enumerators \<Rightarrow> TelemetryStats \<Rightarrow> TelemetryStats" where
  "afterReasons E t =
     recordStats_update
       (\<lambda>r. r\<lparr> rejectedCountReasonDistribution :=
                  touchAll (snapshotRejectedReasons E) 0 (rejectedCountReasonDistribution r),
                droppedCountReasonDistribution :=
                  touchAll (snapshotDroppedReasons E) 0 (droppedCountReasonDistribution r) \<rparr>) t"

definition afterSnapshot :: "Enumerators \<Rightarrow> TelemetryStats \<Rightarrow> TelemetryStats" where
  "afterSnapshot E t = fold afterPriority (snapshotLatencies E) (afterReasons E t)"

text \<open>
  \<open>snapStatsToRecord\<close>: one record per tenant row, in the order of the tenant map, then,
  unless the rollup is an ongoing one, the record of the global row.
\<close>

definition snapStatsToRecord ::
    "Enumerators \<Rightarrow> MetaStats \<Rightarrow> u64 \<Rightarrow> Record list \<Rightarrow> RollUpKind \<Rightarrow> Record list \<times> MetaStats" where
  "snapStatsToRecord E ms now records rollupKind =
     (let snaps = map (\<lambda>tenantStats. (fst tenantStats,
                         privateSnapStatsToRecord E ms now rollupKind (snd tenantStats)))
                    (m_telemetryTenantStats ms);
          records1 = records @ map (\<lambda>x. fst (snd x)) snaps;
          ms1 = ms\<lparr> m_telemetryTenantStats := map (\<lambda>x. (fst x, snd (snd x))) snaps \<rparr>
      in if rollupKind \<noteq> ACT_STATS_ROLLUP_KIND_ONGOING then
           (let g = (m_telemetryStats ms1)
                      \<lparr> tenantId := tenantIdOf (MetaStatsTenantToken (m_config ms1)) \<rparr>;
                res = privateSnapStatsToRecord E ms1 now rollupKind g
            in (records1 @ [fst res], ms1\<lparr> m_telemetryStats := snd res \<rparr>))
         else (records1, ms1))"

subsection \<open>Clearing, the availability test and the rollup\<close>

definition privateClearStats :: "TelemetryStats \<Rightarrow> TelemetryStats" where
  "privateClearStats telemetryStats =
     (let t1 = packageStats_update
                 (\<lambda>p. p\<lparr> dropPkgsPerHttpReturnCode := [], retryPkgsPerHttpReturnCode := [] \<rparr>)
                 telemetryStats;
          t2 = t1\<lparr> retriesCountDistribution := [] \<rparr>;
          t3 = (rttStats_update \<circ> latencyDistribution_update) (\<lambda>d. []) t2;
          t4 = t3\<lparr> logToSuccessfulSendLatencyPerLatency := [] \<rparr>;
          t5 = recordStats_update
                 (\<lambda>r. r\<lparr> sizeInKBytesDistribution := [], semanticToRecordCountMap := [],
                          semanticToExceptionCountMap := [],
                          droppedCountPerHttpReturnCode := [] \<rparr>) t4
      in offlineStorageStats_update
           (\<lambda>st. st\<lparr> saveSizeInKBytesDistribution := [],
                     overwrittenSizeInKBytesDistribution := [] \<rparr>) t5)"

definition clearStats :: "MetaStats \<Rightarrow> MetaStats" where
  "clearStats ms =
     ms\<lparr> m_telemetryTenantStats :=
           map (\<lambda>tenantStats. (fst tenantStats, privateClearStats (snd tenantStats)))
               (m_telemetryTenantStats ms),
         m_telemetryStats := privateClearStats (m_telemetryStats ms) \<rparr>"

text \<open>\<open>hasStatsDataAvailable\<close>: the four sums are \<open>unsigned int\<close> accumulators.\<close>

definition hasStatsDataAvailable :: "MetaStats \<Rightarrow> bool" where
  "hasStatsDataAvailable ms =
     (let rows = map snd (m_telemetryTenantStats ms);
          rejectedSum = fold (\<lambda>t acc. acc + rejectedCount (recordStats t)) rows (0 :: u32);
          bannedSum = fold (\<lambda>t acc. acc + bannedCount (recordStats t)) rows (0 :: u32);
          droppedSum = fold (\<lambda>t acc. acc + droppedCount (recordStats t)) rows (0 :: u32);
          receivedCountnotStats =
            fold (\<lambda>t acc. acc + (receivedCount (recordStats t)
                                   - receivedMetastatsCount (recordStats t))) rows (0 :: u32)
      in rejectedSum > 0 \<or> bannedSum > 0 \<or> droppedSum > 0 \<or> receivedCountnotStats > 0
         \<or> totalPkgsAcked (packageStats (m_telemetryStats ms))
             > totalMetastatsOnlyPkgsAcked (packageStats (m_telemetryStats ms))
         \<or> totalPkgsToBeAcked (packageStats (m_telemetryStats ms))
             > totalMetastatsOnlyPkgsToBeAcked (packageStats (m_telemetryStats ms)))"

definition generateStatsEvent ::
    "Enumerators \<Rightarrow> MetaStats \<Rightarrow> u64 \<Rightarrow> RollUpKind \<Rightarrow> Record list \<times> MetaStats" where
  "generateStatsEvent E ms now rollupKind =
     (let res = (if hasStatsDataAvailable ms \<or> rollupKind \<noteq> ACT_STATS_ROLLUP_KIND_ONGOING
                 then (let snapped = snapStatsToRecord E ms now [] rollupKind
                       in (fst snapped, resetStats (snd snapped) now False))
                 else ([], ms))
      in if rollupKind = ACT_STATS_ROLLUP_KIND_STOP then (fst res, clearStats (snd res))
         else res)"

subsection \<open>Construction and the mutators\<close>

text \<open>
  The constructor: the global row is a new row with the start time; \<open>resetStats(true)\<close>
  runs on the tenant map, which is empty; then the flags and the session identifier are set.
\<close>

definition newMetaStats :: "RuntimeConfig \<Rightarrow> StatsConfig \<Rightarrow> u64 \<Rightarrow> string \<Rightarrow> MetaStats" where
  "newMetaStats config statsConfig now uuid =
     (let ms0 = \<lparr> m_config = config, m_statsConfig = statsConfig,
                  m_telemetryStats = newTelemetryStats
                    \<lparr> statsStartTimestamp := now, session_startup_time_in_millisec := now \<rparr>,
                  m_telemetryTenantStats = [], m_sessionId = [] \<rparr>;
          ms1 = resetStats ms0 now True;
          ms2 = m_telemetryStats_update
                  (\<lambda>t. t\<lparr> offlineStorageEnabled := True, resourceManagerEnabled := False,
                           ecsClientEnabled := False \<rparr>) ms1
      in ms2\<lparr> m_sessionId := uuid \<rparr>)"

definition updateOnPostData :: "MetaStats \<Rightarrow> u32 \<Rightarrow> bool \<Rightarrow> MetaStats" where
  "updateOnPostData ms postDataLength metastatsOnly =
     (m_telemetryStats_update \<circ> packageStats_update)
       (\<lambda>p. let p1 = p\<lparr> totalBandwidthConsumedInBytes :=
                          totalBandwidthConsumedInBytes p + ucast postDataLength \<rparr>;
                 p2 = p1\<lparr> totalPkgsToBeAcked := totalPkgsToBeAcked p1 + 1 \<rparr>
             in if metastatsOnly
                then p2\<lparr> totalMetastatsOnlyPkgsToBeAcked := totalMetastatsOnlyPkgsToBeAcked p2 + 1 \<rparr>
                else p2) ms"

text \<open>
  \<open>auto& temp = m_telemetryTenantStats[token]\<close> followed by writes through \<open>temp\<close>: the
  row, a new one where the token is absent, is changed in the map.
\<close>

definition onTenant ::
    "string \<Rightarrow> (TelemetryStats \<Rightarrow> TelemetryStats) \<Rightarrow> (string, TelemetryStats) std_map
      \<Rightarrow> (string, TelemetryStats) std_map" where
  "onTenant token f tenants = map_assign token (f (map_at token newTelemetryStats tenants)) tenants"

text \<open>
  The mutators that take counts by tenant: the counts are \<open>size_t\<close>, cast to
  \<open>unsigned int\<close>; \<open>overallCount\<close> is an \<open>int\<close> that accumulates them.
\<close>

fun droppedLoop :: "u32 \<Rightarrow> (string, u64) std_map \<Rightarrow> (string, TelemetryStats) std_map \<times> u32
      \<Rightarrow> (string, TelemetryStats) std_map \<times> u32" where
  "droppedLoop reason [] s = s"
| "droppedLoop reason (dropcouttenant # rest) s =
     droppedLoop reason rest
       (onTenant (fst dropcouttenant)
          (recordStats_update
             (\<lambda>r. r\<lparr> droppedCountReasonDistribution :=
                        map_add_at reason (ucast (snd dropcouttenant))
                          (droppedCountReasonDistribution r),
                      droppedCount := droppedCount r + ucast (snd dropcouttenant) \<rparr>))
          (fst s),
        snd s + ucast (snd dropcouttenant))"

definition updateOnRecordsDropped :: "MetaStats \<Rightarrow> u32 \<Rightarrow> (string, u64) std_map \<Rightarrow> MetaStats" where
  "updateOnRecordsDropped ms reason droppedCounts =
     (let res = droppedLoop reason droppedCounts (m_telemetryTenantStats ms, 0);
          overallCount = snd res
      in (m_telemetryStats_update \<circ> recordStats_update)
           (\<lambda>r. r\<lparr> droppedCountReasonDistribution :=
                      map_add_at reason overallCount (droppedCountReasonDistribution r),
                    droppedCount := droppedCount r + overallCount \<rparr>)
           (ms\<lparr> m_telemetryTenantStats := fst res \<rparr>))"

fun rejectedLoop :: "u32 \<Rightarrow> (string, u64) std_map \<Rightarrow> (string, TelemetryStats) std_map \<times> u32
      \<Rightarrow> (string, TelemetryStats) std_map \<times> u32" where
  "rejectedLoop reason [] s = s"
| "rejectedLoop reason (rejecttenant # rest) s =
     rejectedLoop reason rest
       (onTenant (fst rejecttenant)
          (recordStats_update
             (\<lambda>r. r\<lparr> rejectedCountReasonDistribution :=
                        map_add_at reason (ucast (snd rejecttenant))
                          (rejectedCountReasonDistribution r),
                      rejectedCount := rejectedCount r + ucast (snd rejecttenant) \<rparr>))
          (fst s),
        snd s + ucast (snd rejecttenant))"

definition updateOnRecordsRejected :: "MetaStats \<Rightarrow> u32 \<Rightarrow> (string, u64) std_map \<Rightarrow> MetaStats" where
  "updateOnRecordsRejected ms reason rejectedCounts =
     (let res = rejectedLoop reason rejectedCounts (m_telemetryTenantStats ms, 0);
          overallCount = snd res
      in (m_telemetryStats_update \<circ> recordStats_update)
           (\<lambda>r. r\<lparr> rejectedCountReasonDistribution :=
                      map_add_at reason overallCount (rejectedCountReasonDistribution r) \<rparr>)
           (ms\<lparr> m_telemetryTenantStats := fst res \<rparr>))"

subsection \<open>The absence of wrap-around, and concrete inputs\<close>

text \<open>
  The four sums of \<open>hasStatsDataAvailable\<close> do not wrap around when the sums of the
  counters over all tenant rows, taken in the natural numbers, fit into 32 bits.
\<close>

definition sumOver :: "(TelemetryStats \<Rightarrow> u32) \<Rightarrow> MetaStats \<Rightarrow> nat" where
  "sumOver f ms = sum_list (map (\<lambda>tenantStats. unat (f (snd tenantStats))) (m_telemetryTenantStats ms))"

definition sumsFit :: "MetaStats \<Rightarrow> bool" where
  "sumsFit ms =
     (sumOver (\<lambda>t. rejectedCount (recordStats t)) ms < 2 ^ 32
      \<and> sumOver (\<lambda>t. bannedCount (recordStats t)) ms < 2 ^ 32
      \<and> sumOver (\<lambda>t. droppedCount (recordStats t)) ms < 2 ^ 32
      \<and> sumOver (\<lambda>t. receivedCount (recordStats t) - receivedMetastatsCount (recordStats t)) ms
          < 2 ^ 32)"

text \<open>
  The availability of statistics data in the words of the specification: some tenant row
  has a non-zero rejected, banned or dropped counter or a non-zero difference of received
  and received meta-statistics records, or the package statistics of the global row show
  more posted than meta-statistics-only posted packages, or more acknowledged than
  meta-statistics-only acknowledged ones.
\<close>

definition anyActivity :: "MetaStats \<Rightarrow> bool" where
  "anyActivity ms =
     ((\<exists>tenantStats \<in> set (m_telemetryTenantStats ms).
          rejectedCount (recordStats (snd tenantStats)) \<noteq> 0
          \<or> bannedCount (recordStats (snd tenantStats)) \<noteq> 0
          \<or> droppedCount (recordStats (snd tenantStats)) \<noteq> 0
          \<or> receivedCount (recordStats (snd tenantStats))
              - receivedMetastatsCount (recordStats (snd tenantStats)) \<noteq> 0)
      \<or> totalPkgsToBeAcked (packageStats (m_telemetryStats ms))
          > totalMetastatsOnlyPkgsToBeAcked (packageStats (m_telemetryStats ms))
      \<or> totalPkgsAcked (packageStats (m_telemetryStats ms))
          > totalMetastatsOnlyPkgsAcked (packageStats (m_telemetryStats ms)))"

text \<open>
  A row whose counter state is zero: every scalar counter of the record statistics (of the
  row and of each latency class) and of the package statistics is 0, every count in a
  histogram or counter map is 0, and no send-latency statistics are left. The minima and
  maxima of sizes and latencies are not counters.
\<close>

definition valuesZero :: "('k, u32) std_map \<Rightarrow> bool" where
  "valuesZero m = list_all (\<lambda>item. snd item = 0) m"

definition recordCountersZero :: "RecordStats \<Rightarrow> bool" where
  "recordCountersZero r =
     (bannedCount r = 0 \<and> receivedCount r = 0 \<and> receivedMetastatsCount r = 0
      \<and> sentCount r = 0 \<and> sentCountFromCurrentSession r = 0
      \<and> sentCountFromPreviousSession r = 0 \<and> rejectedCount r = 0 \<and> droppedCount r = 0
      \<and> overflownCount r = 0 \<and> totalRecordsSizeInBytes r = 0
      \<and> valuesZero (rejectedCountReasonDistribution r)
      \<and> valuesZero (droppedCountReasonDistribution r)
      \<and> valuesZero (droppedCountPerHttpReturnCode r)
      \<and> valuesZero (semanticToRecordCountMap r)
      \<and> valuesZero (semanticToExceptionCountMap r)
      \<and> valuesZero (sizeInKBytesDistribution r))"

definition packageCountersZero :: "PackageStats \<Rightarrow> bool" where
  "packageCountersZero p =
     (totalPkgsToBeAcked p = 0 \<and> totalMetastatsOnlyPkgsToBeAcked p = 0
      \<and> totalPkgsNotToBeAcked p = 0 \<and> totalPkgsAcked p = 0
      \<and> totalMetastatsOnlyPkgsAcked p = 0 \<and> successPkgsAcked p = 0
      \<and> retryPkgsAcked p = 0 \<and> dropPkgsAcked p = 0
      \<and> totalBandwidthConsumedInBytes p = 0
      \<and> valuesZero (dropPkgsPerHttpReturnCode p)
      \<and> valuesZero (retryPkgsPerHttpReturnCode p))"

definition rowCountersZero :: "TelemetryStats \<Rightarrow> bool" where
  "rowCountersZero t =
     (recordCountersZero (recordStats t)
      \<and> list_all (\<lambda>kv. recordCountersZero (snd kv)) (recordStatsPerLatency t)
      \<and> packageCountersZero (packageStats t)
      \<and> valuesZero (latencyDistribution (rttStats t))
      \<and> logToSuccessfulSendLatencyPerLatency t = []
      \<and> valuesZero (retriesCountDistribution t)
      \<and> fileSizeInBytes (offlineStorageStats t) = 0
      \<and> valuesZero (saveSizeInKBytesDistribution (offlineStorageStats t))
      \<and> valuesZero (overwrittenSizeInKBytesDistribution (offlineStorageStats t)))"

text \<open>The maps of a row that \<open>privateClearStats\<close> empties.\<close>

definition clearedMaps :: "TelemetryStats \<Rightarrow> bool" where
  "clearedMaps t =
     (dropPkgsPerHttpReturnCode (packageStats t) = []
      \<and> retryPkgsPerHttpReturnCode (packageStats t) = []
      \<and> retriesCountDistribution t = []
      \<and> latencyDistribution (rttStats t) = []
      \<and> logToSuccessfulSendLatencyPerLatency t = []
      \<and> sizeInKBytesDistribution (recordStats t) = []
      \<and> semanticToRecordCountMap (recordStats t) = []
      \<and> semanticToExceptionCountMap (recordStats t) = []
      \<and> droppedCountPerHttpReturnCode (recordStats t) = []
      \<and> saveSizeInKBytesDistribution (offlineStorageStats t) = []
      \<and> overwrittenSizeInKBytesDistribution (offlineStorageStats t) = [])"

text \<open>
  Concrete inputs on which the model is evaluated: a numbering of the enumerators (any
  numbering would do; the values are not taken from the sources), a configuration, and the
  engine constructed from it at time 1000.
\<close>

definition exampleEnumerators :: Enumerators where
  "exampleEnumerators =
     \<lparr> REJECTED_REASON_INVALID_CLIENT_MESSAGE_TYPE = 2,
       REJECTED_REASON_REQUIRED_ARGUMENT_MISSING = 3,
       REJECTED_REASON_EVENT_NAME_MISSING = 4,
       REJECTED_REASON_VALIDATION_FAILED = 0,
       REJECTED_REASON_OLD_RECORD_VERSION = 1,
       REJECTED_REASON_EVENT_EXPIRED = 7,
       REJECTED_REASON_SERVER_DECLINED = 8,
       REJECTED_REASON_TENANT_KILLED = 9,
       REJECTED_REASON_EVENT_SIZE_LIMIT_EXCEEDED = 5,
       DROPPED_REASON_OFFLINE_STORAGE_SAVE_FAILED = 0,
       DROPPED_REASON_RETRY_EXCEEDED = 3,
       EventLatency_Normal = 1,
       EventLatency_CostDeferred = 2,
       EventLatency_RealTime = 3,
       EventLatency_Max = 4 \<rparr>"

definition exampleConfig :: RuntimeConfig where
  "exampleConfig =
     \<lparr> MetaStatsTenantToken = ''stats-tenant-prefix'', MetaStatsSendIntervalSec = 60 \<rparr>"

definition exampleStatsConfig :: StatsConfig where
  "exampleStatsConfig =
     \<lparr> rtt_first_duration_in_millisecs = 100, rtt_next_factor = 2, rtt_total_spots = 10,
       latency_first_duration_in_millisecs = 1000, latency_next_factor = 2,
       latency_total_spots = 10,
       record_size_first_in_kb = 1, record_size_next_factor = 2, record_size_total_spots = 10,
       storage_size_first_in_kb = 8, storage_size_next_factor = 2,
       storage_size_total_spots = 10 \<rparr>"

definition exampleEngine :: MetaStats where
  "exampleEngine = newMetaStats exampleConfig exampleStatsConfig 1000 ''session''"

text \<open>
  Two engines with a tenant row: one after the rejection of three records of the tenant
  \<open>t1-x\<close>, one after the rejection of one record of that tenant as an invalid client
  message type and of two more because their validation failed.
\<close>

definition rejectedThrice :: MetaStats where
  "rejectedThrice = updateOnRecordsRejected exampleEngine 0 [(''t1-x'', 3)]"

definition rejectedTwice :: MetaStats where
  "rejectedTwice =
     updateOnRecordsRejected
       (updateOnRecordsRejected exampleEngine
          (REJECTED_REASON_INVALID_CLIENT_MESSAGE_TYPE exampleEnumerators) [(''t1-x'', 1)])
       (REJECTED_REASON_VALIDATION_FAILED exampleEnumerators) [(''t1-x'', 2)]"

section \<open>Properties of the ordered maps and of the distributions\<close>

lemma map_of_map_assign: "map_of (map_assign k v m) = (map_of m)(k \<mapsto> v)"
  by (induction m) (auto simp: fun_eq_iff)

lemma keys_map_assign: "fst ` set (map_assign k v m) = insert k (fst ` set m)"
proof -
  have "fst ` set (map_assign k v m) = dom (map_of (map_assign k v m))"
    by (simp add: dom_map_of_conv_image_fst)
  also have "\<dots> = insert k (dom (map_of m))" by (simp add: map_of_map_assign)
  finally show ?thesis by (simp add: dom_map_of_conv_image_fst)
qed

lemma map_wf_map_assign: "map_wf m \<Longrightarrow> map_wf (map_assign k v m)"
  unfolding map_wf_def
proof (induction m)
  case Nil
  then show ?case by simp
next
  case (Cons a m)
  obtain k' v' where a: "a = (k', v')" by (cases a)
  from Cons have "sorted_wrt (<) (map fst (map_assign k v m))" by simp
  moreover have "\<forall>x \<in> fst ` set (map_assign k v m). k' < x" if "k' < k"
    using Cons.prems that by (auto simp: keys_map_assign a)
  ultimately show ?case using Cons.prems by (auto simp: a)
qed

lemma length_map_assign_fresh: "k \<notin> fst ` set m \<Longrightarrow> length (map_assign k v m) = Suc (length m)"
  by (induction m) auto

lemma entry_map_assign: "(a, b) \<in> set (map_assign k v m) \<Longrightarrow> b = v \<or> (a, b) \<in> set m"
  by (induction m) (auto split: if_splits)

lemma values_map_assign: "snd ` set (map_assign k v m) \<subseteq> insert v (snd ` set m)"
  using entry_map_assign [of _ _ k v m] by force

lemma initKeysLoop_wf:
  "map_wf d \<Longrightarrow> map_wf (initKeysLoop factor fv inc n lastkey d)"
  by (induction n arbitrary: lastkey d) (simp_all add: Let_def map_wf_map_assign)

lemma initKeysLoop_values:
  "snd ` set d \<subseteq> {0} \<Longrightarrow> snd ` set (initKeysLoop factor fv inc n lastkey d) \<subseteq> {0}"
proof (induction n arbitrary: lastkey d)
  case 0
  then show ?case by simp
next
  case (Suc n)
  have "snd ` set (map_assign (nextKey factor fv inc lastkey) 0 d) \<subseteq> {0}"
    using values_map_assign [of "nextKey factor fv inc lastkey" 0 d] Suc.prems by blast
  then show ?case using Suc.IH by (simp add: Let_def)
qed

lemma initKeysLoop_keys:
  "fst ` set (initKeysLoop factor fv inc n lastkey d)
     = fst ` set d \<union> set (generatedKeys factor fv inc n lastkey)"
  by (induction n arbitrary: lastkey d) (auto simp: Let_def keys_map_assign)

lemma initKeysLoop_length:
  "distinct (generatedKeys factor fv inc n lastkey) \<Longrightarrow>
   set (generatedKeys factor fv inc n lastkey) \<inter> fst ` set d = {} \<Longrightarrow>
   length (initKeysLoop factor fv inc n lastkey d) = length d + n"
proof (induction n arbitrary: lastkey d)
  case 0
  then show ?case by simp
next
  case (Suc n)
  let ?k = "nextKey factor fv inc lastkey"
  from Suc.prems have fresh: "?k \<notin> fst ` set d" by (auto simp: Let_def)
  from Suc.prems have d: "distinct (generatedKeys factor fv inc n ?k)"
    and nk: "?k \<notin> set (generatedKeys factor fv inc n ?k)"
    and dj: "set (generatedKeys factor fv inc n ?k) \<inter> fst ` set d = {}"
    by (auto simp: Let_def)
  have "set (generatedKeys factor fv inc n ?k) \<inter> fst ` set (map_assign ?k 0 d) = {}"
    using nk dj by (auto simp: keys_map_assign)
  from Suc.IH [OF d this] show ?case
    by (simp add: Let_def length_map_assign_fresh [OF fresh])
qed

lemma generatedKeys_geometric_increasing:
  "lastkey \<noteq> 0 \<Longrightarrow> 2 \<le> unat increment \<Longrightarrow> unat lastkey * unat increment ^ n < 2 ^ 32 \<Longrightarrow>
   sorted_wrt (<) (lastkey # generatedKeys True firstValue increment n lastkey)"
proof (induction n arbitrary: lastkey)
  case 0
  then show ?case by simp
next
  case (Suc n)
  let ?key = "increment * lastkey"
  from Suc.prems(1) have pos: "0 < unat lastkey" by (simp add: unat_gt_0)
  from Suc.prems(2) have "unat increment \<le> unat increment ^ Suc n"
    by (intro self_le_power) simp_all
  then have "unat lastkey * unat increment \<le> unat lastkey * unat increment ^ Suc n"
    by (rule mult_le_mono2)
  with Suc.prems(3) have "unat increment * unat lastkey < 2 ^ 32"
    by (simp only: mult.commute [of "unat increment" "unat lastkey"])
  then have fit: "unat increment * unat lastkey < 2 ^ LENGTH(32)"
    by simp
  then have key: "unat ?key = unat increment * unat lastkey"
    by (simp only: unat_mult_lem)
  from pos Suc.prems(2) have "unat lastkey < unat increment * unat lastkey" by simp
  with key have less: "lastkey < ?key" by (simp add: word_less_nat_alt)
  then have nz: "?key \<noteq> 0" by auto
  from Suc.prems(3) key have "unat ?key * unat increment ^ n < 2 ^ 32"
    by (simp add: mult.assoc mult.left_commute)
  from Suc.IH [OF nz Suc.prems(2) this]
  have sorted: "sorted_wrt (<) (?key # generatedKeys True firstValue increment n ?key)" .
  then have "\<forall>x \<in> set (generatedKeys True firstValue increment n ?key). lastkey < x"
    using less by auto
  with sorted less Suc.prems(1) show ?case
    by (simp add: nextKey_def Let_def)
qed

lemma generatedKeys_linear_increasing:
  "lastkey \<noteq> 0 \<Longrightarrow> 1 \<le> unat increment \<Longrightarrow> unat lastkey + unat increment * n < 2 ^ 32 \<Longrightarrow>
   sorted_wrt (<) (lastkey # generatedKeys False firstValue increment n lastkey)"
proof (induction n arbitrary: lastkey)
  case 0
  then show ?case by simp
next
  case (Suc n)
  let ?key = "lastkey + increment"
  from Suc.prems(3) have fit: "unat lastkey + unat increment < 2 ^ LENGTH(32)"
    by simp
  then have key: "unat ?key = unat lastkey + unat increment"
    by (simp only: unat_add_lem)
  with Suc.prems(2) have less: "lastkey < ?key" by (simp add: word_less_nat_alt)
  then have nz: "?key \<noteq> 0" by auto
  from Suc.prems(3) key have "unat ?key + unat increment * n < 2 ^ 32"
    by simp
  from Suc.IH [OF nz Suc.prems(2) this]
  have sorted: "sorted_wrt (<) (?key # generatedKeys False firstValue increment n ?key)" .
  then have "\<forall>x \<in> set (generatedKeys False firstValue increment n ?key). lastkey < x"
    using less by auto
  with sorted less Suc.prems(1) show ?case
    by (simp add: nextKey_def Let_def)
qed

text \<open>
  Parameters without wrap-around give a non-degenerate key sequence: a geometric one with a
  factor of at least 2 whose last key \<open>firstValue * increment ^ (totalSpot - 2)\<close> fits
  into 32 bits, and a linear one with an increment of at least 1 whose last key
  \<open>firstValue + increment * (totalSpot - 2)\<close> fits into 32 bits.
\<close>

lemma nondegenerate_sufficient:
  assumes "1 \<le> firstValue"
    and "if factor then 2 \<le> increment \<and> unat firstValue * unat increment ^ (unat totalSpot - 2) < 2 ^ 32
         else 1 \<le> increment \<and> unat firstValue + unat increment * (unat totalSpot - 2) < 2 ^ 32"
  shows "nondegenerate firstValue increment totalSpot factor"
proof (cases "unat totalSpot - 1")
  case 0
  then show ?thesis by (simp add: nondegenerate_def)
next
  case (Suc n)
  then have n: "unat totalSpot - 2 = n" by simp
  from assms(1) have nz: "firstValue \<noteq> 0" by auto
  then have pos: "0 < firstValue" by (simp add: word_gt_0)
  have "sorted_wrt (<) (firstValue # generatedKeys factor firstValue increment n firstValue)"
  proof (cases factor)
    case True
    with assms(2) n have "2 \<le> unat increment" "unat firstValue * unat increment ^ n < 2 ^ 32"
      by (simp_all add: word_le_nat_alt)
    from generatedKeys_geometric_increasing [OF nz this] True show ?thesis by simp
  next
    case False
    with assms(2) n have "1 \<le> unat increment" "unat firstValue + unat increment * n < 2 ^ 32"
      by (simp_all add: word_le_nat_alt)
    from generatedKeys_linear_increasing [OF nz this] False show ?thesis by simp
  qed
  with pos have "sorted_wrt (<) (0 # firstValue # generatedKeys factor firstValue increment n firstValue)"
    by auto
  then have "distinct (0 # firstValue # generatedKeys factor firstValue increment n firstValue)"
    by (metis strict_sorted_iff)
  moreover have "generatedKeys factor firstValue increment (unat totalSpot - 1) 0
      = firstValue # generatedKeys factor firstValue increment n firstValue"
    by (simp only: Suc) (simp add: nextKey_def Let_def)
  ultimately show ?thesis by (simp only: nondegenerate_def)
qed

text \<open>
  Claim C6. For a first value of at least 1 and at least one spot, when the generated key
  sequence is non-degenerate (the generated keys and the key 0 are pairwise distinct),
  the initialised distribution maps the key 0 to 0, its keys are strictly increasing, every
  count is 0, and the number of keys is the number of spots.
\<close>

theorem initDistributionKeys_invariant:
  assumes "1 \<le> firstValue" and "1 \<le> totalSpot"
    and "nondegenerate firstValue increment totalSpot factor"
  shows "map_find 0 (initDistributionKeys firstValue increment totalSpot d factor) = Some 0
       \<and> sorted_wrt (<) (map fst (initDistributionKeys firstValue increment totalSpot d factor))
       \<and> (\<forall>item \<in> set (initDistributionKeys firstValue increment totalSpot d factor). snd item = 0)
       \<and> length (initDistributionKeys firstValue increment totalSpot d factor) = unat totalSpot"
proof -
  let ?n = "unat totalSpot - 1"
  let ?D = "initKeysLoop factor firstValue increment ?n 0 [(0, 0)]"
  have D: "initDistributionKeys firstValue increment totalSpot d factor = ?D"
    by (simp add: initDistributionKeys_def)
  have wf: "map_wf ?D" by (rule initKeysLoop_wf) (simp add: map_wf_def)
  have vals: "snd ` set ?D \<subseteq> {0}" by (rule initKeysLoop_values) simp
  have "0 \<in> fst ` set ?D" by (simp add: initKeysLoop_keys)
  then obtain c where c: "(0, c) \<in> set ?D" by force
  with vals have "c = 0" by force
  with c wf have find0: "map_find 0 ?D = Some 0"
    by (simp add: map_find_def map_wf_def strict_sorted_iff distinct_map)
  from assms(3) have len: "length ?D = Suc ?n"
    using initKeysLoop_length [of factor firstValue increment ?n 0 "[(0, 0)]"]
    by (auto simp: nondegenerate_def)
  from assms(2) have "1 \<le> unat totalSpot" by (simp add: word_le_nat_alt)
  with len have "length ?D = unat totalSpot" by simp
  with find0 wf vals show ?thesis unfolding D map_wf_def by auto
qed

theorem initDistributionKeys_invariant_witness:
  "(1 :: u32) \<le> 1 \<and> (1 :: u32) \<le> 5 \<and> nondegenerate 1 10 5 True
   \<and> initDistributionKeys 1 10 5 [] True = [(0, 0), (1, 0), (10, 0), (100, 0), (1000, 0)]
   \<and> map_find 0 (initDistributionKeys 1 10 5 [] True) = Some 0
   \<and> sorted_wrt (<) (map fst (initDistributionKeys 1 10 5 [] True))
   \<and> length (initDistributionKeys 1 10 5 [] True) = unat (5 :: u32)"
proof -
  have nd: "nondegenerate 1 10 5 True"
    by code_simp
  have ev: "initDistributionKeys 1 10 5 [] True = [(0, 0), (1, 0), (10, 0), (100, 0), (1000, 0)]"
    by code_simp
  from initDistributionKeys_invariant [of 1 5 10 True "[]", OF _ _ nd] nd ev
  show ?thesis by simp
qed

lemma commaSeparated_Cons: "xs \<noteq> [] \<Longrightarrow> commaSeparated (s # xs) = s @ '','' @ commaSeparated xs"
  by (cases xs) simp_all

lemma aggregateLoop_serializeSpec:
  "d \<noteq> [] \<Longrightarrow> aggregateLoop rangeMode d fieldValue = fieldValue @ serializeSpec rangeMode d"
proof (induction rangeMode d fieldValue rule: aggregateLoop.induct)
  case (1 rangeMode fieldValue)
  then show ?case by simp
next
  case (2 rangeMode it fieldValue)
  then show ?case
    by (simp add: serializeSpec_def trailingField_def pointField_def)
next
  case (3 rangeMode it nxt rest fieldValue)
  then show ?case
    by (simp add: serializeSpec_def commaSeparated_Cons interiorField_def pointField_def)
qed

text \<open>
  Claim C7. For a non-empty distribution, the field written under the distribution's name
  is the comma-separated list of the bucket fields of the specification: in range mode
  \<open>k-k':v\<close> for each interior bucket and \<open>>k:v\<close> for the trailing one, otherwise
  \<open>k:v\<close> for every bucket.
\<close>

theorem addAggregatedMapToRecordFields_serializes:
  assumes "distribution \<noteq> []"
  shows "addAggregatedMapToRecordFields r distributionName distribution rangeMode
         = onProperties (\<lambda>ext. ext(distributionName \<mapsto> serializeSpec rangeMode distribution))
             (ensureData r)"
  using assms aggregateLoop_serializeSpec [of distribution rangeMode "[]"]
  by (simp add: addAggregatedMapToRecordFields_def)

theorem addAggregatedMapToRecordFields_serializes_witness:
  "[(0, 1), (1, 1), (1000, 1)] \<noteq> ([] :: uint_uint_dict_t)
   \<and> data (addAggregatedMapToRecordFields emptyRecord ''d'' [(0, 1), (1, 1), (1000, 1)] True)
       = [[''d'' \<mapsto> ''0-1:1,1-1000:1,>1000:1'']]
   \<and> data (addAggregatedMapToRecordFields emptyRecord ''d'' [(0, 1), (1, 1), (1000, 1)] False)
       = [[''d'' \<mapsto> ''0:1,1:1,1000:1'']]"
  using addAggregatedMapToRecordFields_serializes
          [where distribution = "[(0, 1), (1, 1), (1000, 1)]" and r = emptyRecord
             and distributionName = "''d''" and rangeMode = True]
        addAggregatedMapToRecordFields_serializes
          [where distribution = "[(0, 1), (1, 1), (1000, 1)]" and r = emptyRecord
             and distributionName = "''d''" and rangeMode = False]
  by (simp add: serializeSpec_def interiorField_def trailingField_def pointField_def
        toString_def digits.simps emptyRecord_def ensureData_def onProperties_def)

lemma countUp_keys: "map fst (countUp i m) = map fst m"
proof (cases "i < length m")
  case True
  then show ?thesis by (simp add: countUp_def map_update list_update_same_conv)
next
  case False
  then show ?thesis by (simp add: countUp_def list_update_beyond)
qed

lemma countUp_0: "countUp 0 (a # m) = (fst a, snd a + 1) # m"
  by (simp add: countUp_def)

lemma countUp_Suc: "countUp (Suc j) (a # m) = a # countUp j m"
  by (simp add: countUp_def)

lemma updateMap_keys: "map fst (updateMap D v) = map fst D"
  by (simp add: updateMap_def Let_def countUp_keys)

lemma firstGreater_le: "firstGreater v D \<le> length D"
  by (induction D) auto

lemma firstGreater_pos: "D \<noteq> [] \<Longrightarrow> fst (hd D) \<le> v \<Longrightarrow> 0 < firstGreater v D"
  by (cases D) auto

lemma firstGreater_before:
  "map_wf D \<Longrightarrow> 0 < firstGreater v D \<Longrightarrow>
   fst (D ! (firstGreater v D - 1)) \<le> v
   \<and> (\<forall>k \<in> fst ` set D. k \<le> v \<longrightarrow> k \<le> fst (D ! (firstGreater v D - 1)))"
proof (induction D)
  case Nil
  then show ?case by simp
next
  case (Cons a D)
  obtain k c where a: "a = (k, c)" by (cases a)
  from Cons.prems have kv: "k \<le> v" by (auto simp: a split: if_splits)
  from Cons.prems have wf: "map_wf D" and above: "\<forall>x \<in> fst ` set D. k < x"
    by (auto simp: map_wf_def a)
  show ?case
  proof (cases "0 < firstGreater v D")
    case True
    with Cons.IH wf have IH: "fst (D ! (firstGreater v D - 1)) \<le> v"
      "\<forall>x \<in> fst ` set D. x \<le> v \<longrightarrow> x \<le> fst (D ! (firstGreater v D - 1))" by auto
    have "firstGreater v D - 1 < length D" using True firstGreater_le [of v D] by simp
    then have "fst (D ! (firstGreater v D - 1)) \<in> fst ` set D" by simp
    with above have "k < fst (D ! (firstGreater v D - 1))" by blast
    with IH kv True show ?thesis by (auto simp: a nth_Cons')
  next
    case False
    then have z: "firstGreater v D = 0" by simp
    have "\<forall>x \<in> fst ` set D. v < x"
    proof (cases D)
      case Nil
      then show ?thesis by simp
    next
      case (Cons b D')
      with z have "v < fst b" by (cases b) (auto split: if_splits)
      moreover from wf Cons have "\<forall>x \<in> fst ` set D'. fst b < x" by (auto simp: map_wf_def)
      ultimately show ?thesis using Cons by auto
    qed
    with kv z show ?thesis by (auto simp: a)
  qed
qed

lemma map_of_countUp_0:
  "map_of (countUp 0 (a # m)) = (map_of (a # m))(fst ((a # m) ! 0) \<mapsto> snd ((a # m) ! 0) + 1)"
  by (cases a) (simp add: countUp_0)

lemma map_of_countUp_Suc:
  "map_of (countUp (Suc j) (a # m)) = (map_of (countUp j m))(fst a \<mapsto> snd a)"
  by (cases a) (simp add: countUp_Suc)

lemma map_of_countUp:
  "distinct (map fst m) \<Longrightarrow> i < length m \<Longrightarrow>
   map_of (countUp i m) = (map_of m)(fst (m ! i) \<mapsto> snd (m ! i) + 1)"
proof (induction m arbitrary: i)
  case Nil
  then show ?case by simp
next
  case (Cons a m)
  show ?case
  proof (cases i)
    case 0
    show ?thesis unfolding 0 by (rule map_of_countUp_0)
  next
    case (Suc j)
    with Cons.prems have j: "j < length m" and d: "distinct (map fst m)" by auto
    note IH = Cons.IH [OF d j]
    from j have mem: "fst (m ! j) \<in> fst ` set m" by simp
    from Cons.prems have notin: "fst a \<notin> fst ` set m" by simp
    have ne: "fst a \<noteq> fst (m ! j)"
    proof
      assume "fst a = fst (m ! j)"
      with mem notin show False by simp
    qed
    have rhs: "(map_of (a # m))(fst ((a # m) ! Suc j) \<mapsto> snd ((a # m) ! Suc j) + 1)
          = ((map_of m)(fst a \<mapsto> snd a))(fst (m ! j) \<mapsto> snd (m ! j) + 1)"
      by (cases a) simp
    have "map_of (countUp (Suc j) (a # m)) = (map_of (countUp j m))(fst a \<mapsto> snd a)"
      by (rule map_of_countUp_Suc)
    also have "\<dots> = ((map_of m)(fst (m ! j) \<mapsto> snd (m ! j) + 1))(fst a \<mapsto> snd a)"
      by (simp only: IH)
    also have "\<dots> = ((map_of m)(fst a \<mapsto> snd a))(fst (m ! j) \<mapsto> snd (m ! j) + 1)"
      by (rule fun_upd_twist) (rule ne [symmetric])
    finally show ?thesis unfolding Suc by (simp only: rhs)
  qed
qed

lemma totalCount_countUp:
  "i < length m \<Longrightarrow> snd (m ! i) \<noteq> - 1 \<Longrightarrow> totalCount (countUp i m) = totalCount m + 1"
proof (induction m arbitrary: i)
  case Nil
  then show ?case by simp
next
  case (Cons a m)
  show ?case
  proof (cases i)
    case 0
    with Cons.prems have "snd a \<noteq> - 1" by simp
    then have "snd a + 1 \<noteq> 0" by (simp add: add_eq_0_iff2)
    then have "unat (snd a + 1) = unat (snd a) + 1"
      using unatSuc [of "snd a"] by (simp add: add.commute)
    with 0 show ?thesis by (simp add: countUp_0 totalCount_def)
  next
    case (Suc j)
    with Cons.prems Cons.IH [of j] show ?thesis by (simp add: countUp_Suc totalCount_def)
  qed
qed

text \<open>
  Claim C5, amended. On a distribution with strictly increasing keys, \<open>updateMap\<close> leaves
  an empty distribution unchanged and never changes the key set; where some key is at most
  the value, the count of the largest such key goes up by one (modulo \<open>2^32\<close>) and no
  other count changes; where the key 0 is present and the value is below every other key,
  that is the count of the key 0; and on a non-empty distribution exactly one count is
  incremented, so that the total of the counts rises by exactly one unless that count was
  at \<open>2^32 - 1\<close>.
\<close>

theorem updateMap_observes:
  assumes "map_wf D"
  shows "(D = [] \<longrightarrow> updateMap D v = D)
       \<and> map fst (updateMap D v) = map fst D
       \<and> (\<forall>k \<in> fst ` set D. k \<le> v \<and> (\<forall>k' \<in> fst ` set D. k' \<le> v \<longrightarrow> k' \<le> k) \<longrightarrow>
             (\<forall>j. map_find j (updateMap D v)
                  = (if j = k then Some (the (map_find k D) + 1) else map_find j D)))
       \<and> (0 \<in> fst ` set D \<and> (\<forall>k \<in> fst ` set D. k \<noteq> 0 \<longrightarrow> v < k) \<longrightarrow>
             (\<forall>j. map_find j (updateMap D v)
                  = (if j = 0 then Some (the (map_find 0 D) + 1) else map_find j D)))
       \<and> (D \<noteq> [] \<longrightarrow>
             (\<exists>i < length D. updateMap D v = D[i := (fst (D ! i), snd (D ! i) + 1)]
                 \<and> (snd (D ! i) \<noteq> - 1 \<longrightarrow> totalCount (updateMap D v) = totalCount D + 1)))"
proof -
  from assms have dist: "distinct (map fst D)"
    by (simp add: map_wf_def strict_sorted_iff)
  have largest: "\<forall>j. map_find j (updateMap D v)
                  = (if j = k then Some (the (map_find k D) + 1) else map_find j D)"
    if k: "k \<in> fst ` set D" "k \<le> v" "\<forall>k' \<in> fst ` set D. k' \<le> v \<longrightarrow> k' \<le> k" for k
  proof -
    from k have ne: "D \<noteq> []" by auto
    have "fst (hd D) \<le> v"
    proof -
      from ne have "fst (hd D) \<in> fst ` set D" by simp
      moreover have "fst (hd D) \<le> k"
        using assms k(1) ne by (cases D) (auto simp: map_wf_def)
      ultimately show ?thesis using k(2) by simp
    qed
    with ne have pos: "0 < firstGreater v D" by (rule firstGreater_pos)
    let ?i = "firstGreater v D - 1"
    from pos firstGreater_le [of v D] have i: "?i < length D" by simp
    from firstGreater_before [OF assms pos]
    have b: "fst (D ! ?i) \<le> v" "\<forall>x \<in> fst ` set D. x \<le> v \<longrightarrow> x \<le> fst (D ! ?i)" by auto
    from i have mem: "fst (D ! ?i) \<in> fst ` set D" by simp
    from b k mem have keq: "fst (D ! ?i) = k" by (meson order.antisym)
    from i dist have "map_of D (fst (D ! ?i)) = Some (snd (D ! ?i))"
      by (metis map_of_eq_Some_iff nth_mem prod.collapse)
    with keq have val: "the (map_find k D) = snd (D ! ?i)" by (simp add: map_find_def)
    from pos ne have "updateMap D v = countUp ?i D" by (simp add: updateMap_def Let_def)
    with map_of_countUp [OF dist i] keq val show ?thesis by (simp add: map_find_def)
  qed
  have zero: "\<forall>j. map_find j (updateMap D v)
                  = (if j = 0 then Some (the (map_find 0 D) + 1) else map_find j D)"
    if "0 \<in> fst ` set D" "\<forall>k \<in> fst ` set D. k \<noteq> 0 \<longrightarrow> v < k"
  proof (rule largest)
    show "0 \<in> fst ` set D" by fact
    show "0 \<le> v" by simp
    show "\<forall>k' \<in> fst ` set D. k' \<le> v \<longrightarrow> k' \<le> 0" using that(2) by (metis leD order_refl)
  qed
  have total: "\<exists>i < length D. updateMap D v = D[i := (fst (D ! i), snd (D ! i) + 1)]
                 \<and> (snd (D ! i) \<noteq> - 1 \<longrightarrow> totalCount (updateMap D v) = totalCount D + 1)"
    if ne: "D \<noteq> []"
  proof -
    let ?i = "firstGreater v D - 1"
    from ne firstGreater_le [of v D] have i: "?i < length D" by (cases D) auto
    from ne have u: "updateMap D v = countUp ?i D" by (simp add: updateMap_def Let_def)
    with i totalCount_countUp [OF i] show ?thesis by (auto simp: countUp_def)
  qed
  have empty: "D = [] \<longrightarrow> updateMap D v = D" by (simp add: updateMap_def)
  show ?thesis
  proof (intro conjI)
    show "D = [] \<longrightarrow> updateMap D v = D" by (rule empty)
    show "map fst (updateMap D v) = map fst D" by (rule updateMap_keys)
    show "\<forall>k \<in> fst ` set D. k \<le> v \<and> (\<forall>k' \<in> fst ` set D. k' \<le> v \<longrightarrow> k' \<le> k) \<longrightarrow>
             (\<forall>j. map_find j (updateMap D v)
                  = (if j = k then Some (the (map_find k D) + 1) else map_find j D))"
      using largest by blast
    show "0 \<in> fst ` set D \<and> (\<forall>k \<in> fst ` set D. k \<noteq> 0 \<longrightarrow> v < k) \<longrightarrow>
             (\<forall>j. map_find j (updateMap D v)
                  = (if j = 0 then Some (the (map_find 0 D) + 1) else map_find j D))"
      using zero by blast
    show "D \<noteq> [] \<longrightarrow>
             (\<exists>i < length D. updateMap D v = D[i := (fst (D ! i), snd (D ! i) + 1)]
                 \<and> (snd (D ! i) \<noteq> - 1 \<longrightarrow> totalCount (updateMap D v) = totalCount D + 1))"
      using total by blast
  qed
qed

theorem updateMap_observes_witness:
  "map_wf [(0 :: u32, 0 :: u32), (1, 0), (10, 0), (100, 0), (1000, 0)]
   \<and> updateMap [(0, 0), (1, 0), (10, 0), (100, 0), (1000, 0)] 2
       = [(0, 0), (1, 1), (10, 0), (100, 0), (1000, 0)]
   \<and> updateMap [(0, 0), (1, 0), (10, 0), (100, 0), (1000, 0)] 0
       = [(0, 1), (1, 0), (10, 0), (100, 0), (1000, 0)]
   \<and> map_find 1 (updateMap [(0, 0), (1, 0), (10, 0), (100, 0), (1000, 0)] 2) = Some 1
   \<and> totalCount (updateMap [(0, 0), (1, 0), (10, 0), (100, 0), (1000, 0)] 2) = 1"
proof -
  have wf: "map_wf [(0 :: u32, 0 :: u32), (1, 0), (10, 0), (100, 0), (1000, 0)]"
    by (simp add: map_wf_def)
  have ev: "updateMap [(0, 0), (1, 0), (10, 0), (100, 0), (1000, 0)] 2
       = [(0, 0), (1, 1), (10, 0), (100, 0), (1000, 0)]"
    "updateMap [(0, 0), (1, 0), (10, 0), (100, 0), (1000, 0)] 0
       = [(0, 1), (1, 0), (10, 0), (100, 0), (1000, 0)]"
    by (simp_all add: updateMap_def countUp_def)
  have tot: "totalCount [(0, 0), (1, 1), (10, 0), (100, 0), (1000, 0)] = 1"
    by (simp add: totalCount_def)
  have fnd: "map_find 1 [(0 :: u32, 0 :: u32), (1, 1), (10, 0), (100, 0), (1000, 0)] = Some 1"
    by (simp add: map_find_def)
  note keys = updateMap_observes [OF wf, of 2, THEN conjunct2, THEN conjunct1]
  from wf ev tot fnd keys show ?thesis by (simp only: simp_thms)
qed

text \<open>
  Claim C5 as stated fails where the incremented count is at the maximum of
  \<open>unsigned int\<close>: the count wraps around to 0 and the total of the counts falls.
\<close>

theorem updateMap_saturated_counterexample:
  "map_wf [(0 :: u32, 0xFFFFFFFF :: u32)]
   \<and> totalCount [(0, 0xFFFFFFFF)] = 4294967295
   \<and> updateMap [(0, 0xFFFFFFFF)] 0 = [(0, 0)]
   \<and> totalCount (updateMap [(0, 0xFFFFFFFF)] 0) = 0"
proof -
  have "updateMap [(0, 0xFFFFFFFF)] 0 = [(0, 0)]"
    by (simp add: updateMap_def countUp_def)
  moreover have "totalCount [(0, 0xFFFFFFFF)] = 4294967295" "totalCount [(0, 0)] = 0"
    by (simp_all add: totalCount_def)
  moreover have "map_wf [(0 :: u32, 0xFFFFFFFF :: u32)]"
    by (simp add: map_wf_def)
  ultimately show ?thesis by (simp only: simp_thms)
qed

section \<open>The projection of a row\<close>

lemma map_find_map_assign: "map_find j (map_assign k v m) = (if j = k then Some v else map_find j m)"
  by (simp add: map_find_def map_of_map_assign)

lemma map_find_map_touch:
  "map_find j (map_touch k d m) = (if j = k \<and> map_find k m = None then Some d else map_find j m)"
  by (cases "map_find k m") (auto simp: map_touch_def map_find_map_assign)

lemma map_at_map_touch:
  "map_at j d (map_touch k d m) = map_at j d m"
  by (simp add: map_at_def map_find_map_touch)

lemma keys_map_touch: "fst ` set (map_touch k d m) = insert k (fst ` set m)"
proof (cases "map_find k m")
  case None
  then show ?thesis by (simp add: map_touch_def keys_map_assign)
next
  case (Some v)
  then have "k \<in> fst ` set m"
    by (metis map_find_def map_of_eq_None_iff option.distinct(1))
  with Some show ?thesis by (auto simp: map_touch_def)
qed

lemma map_wf_map_touch: "map_wf m \<Longrightarrow> map_wf (map_touch k d m)"
  by (cases "map_find k m") (simp_all add: map_touch_def map_wf_map_assign)

lemma sequence_Nil: "sequence [] s = s"
  by (simp add: sequence_def)

lemma sequence_Cons: "sequence (step # steps) s = sequence steps (step s)"
  by (simp add: sequence_def)

lemma sequence_append: "sequence (xs @ ys) s = sequence ys (sequence xs s)"
  by (simp add: sequence_def)

lemma snd_put: "snd (put key val s) = snd s"
  by (simp add: put_def)

lemma snd_assign: "snd (assign key val s) = snd s"
  by (simp add: assign_def)

lemma snd_onRecord: "snd (onRecord f s) = snd s"
  by (simp add: onRecord_def)

lemma snd_whenever:
  "snd (whenever c steps s) = (if c (snd s) then snd (sequence steps s) else snd s)"
  by (simp add: whenever_def)

lemma snd_bindRecordStats:
  "snd (bindRecordStats l s) = recordStatsPerLatency_update (map_touch l newRecordStats) (snd s)"
  by (simp add: bindRecordStats_def)

lemma snd_bindLatencyStats:
  "snd (bindLatencyStats l s)
     = logToSuccessfulSendLatencyPerLatency_update (map_touch l newLatencyStats) (snd s)"
  by (simp add: bindLatencyStats_def)

lemma snd_insertReason: "snd (insertReason key reason s) = map_touch reason 0 (snd s)"
  by (simp add: insertReason_def Let_def)

lemmas snd_steps = sequence_Nil sequence_Cons snd_put snd_assign snd_onRecord snd_whenever
  snd_bindRecordStats snd_bindLatencyStats

lemma snd_snapSessionFields: "snd (sequence (snapSessionFields ms now k) s) = snd s"
  by (simp add: snapSessionFields_def snd_steps)

lemma snd_snapPackageStats: "snd (sequence snapPackageStats s) = snd s"
  by (simp add: snapPackageStats_def snd_steps)

lemma perLatency_bindRecordStats:
  "perLatency l (recordStatsPerLatency_update (map_touch l' newRecordStats) t) = perLatency l t"
  by (simp add: perLatency_def map_at_map_touch)

lemma snd_snapLowPriority:
  "snd (sequence (snapLowPriority E) s)
   = afterPriority (EventLatency_Normal E) (snd s)"
  by (simp add: snapLowPriority_def snd_steps afterPriority_def Let_def
        perLatency_bindRecordStats)

lemma snd_snapNormalPriority:
  "snd (sequence (snapNormalPriority E) s)
   = afterPriority (EventLatency_CostDeferred E) (snd s)"
  by (simp add: snapNormalPriority_def snd_steps afterPriority_def Let_def
        perLatency_bindRecordStats)

lemma snd_snapHighPriority:
  "snd (sequence (snapHighPriority E) s)
   = afterPriority (EventLatency_RealTime E) (snd s)"
  by (simp add: snapHighPriority_def snd_steps afterPriority_def Let_def
        perLatency_bindRecordStats)

lemma snd_snapImmediatePriority:
  "snd (sequence (snapImmediatePriority E) s)
   = afterPriority (EventLatency_Max E) (snd s)"
  by (simp add: snapImmediatePriority_def snd_steps afterPriority_def Let_def
        perLatency_bindRecordStats)

lemma snd_addRecordsPerRejectedReasonToRecordFields:
  "snd (addRecordsPerRejectedReasonToRecordFields E r m) = touchAll (snapshotRejectedReasons E) 0 m"
  by (simp add: addRecordsPerRejectedReasonToRecordFields_def sequence_Nil sequence_Cons
        snd_insertReason touchAll_def snapshotRejectedReasons_def)

lemma snd_rejectedReasons:
  "snd (rejectedReasons E s)
   = (recordStats_update \<circ> rejectedCountReasonDistribution_update)
       (touchAll (snapshotRejectedReasons E) 0) (snd s)"
  by (simp add: rejectedReasons_def Let_def snd_addRecordsPerRejectedReasonToRecordFields)

lemma snd_putDroppedReason:
  "snd (putDroppedReason key reason s)
   = (recordStats_update \<circ> droppedCountReasonDistribution_update) (map_touch reason 0) (snd s)"
  by (simp add: putDroppedReason_def Let_def)

lemma snd_snapRecordStats:
  "snd (sequence (snapRecordStats E) s) = afterReasons E (snd s)"
  by (simp add: snapRecordStats_def snd_steps snd_rejectedReasons snd_putDroppedReason
        afterReasons_def touchAll_def snapshotDroppedReasons_def)

lemma privateSnapStatsToRecord_row:
  "snd (privateSnapStatsToRecord E ms now rollupKind t) = afterSnapshot E t"
  by (simp add: privateSnapStatsToRecord_def sequence_append snd_snapSessionFields
        snd_snapPackageStats snd_snapRecordStats snd_snapLowPriority snd_snapNormalPriority
        snd_snapHighPriority snd_snapImmediatePriority afterSnapshot_def snapshotLatencies_def)

lemma map_find_touchAll:
  "map_find j (touchAll ks d m)
     = (if j \<in> set ks \<and> map_find j m = None then Some d else map_find j m)"
proof (induction ks arbitrary: m)
  case Nil
  then show ?case by (simp add: touchAll_def)
next
  case (Cons k ks)
  have "touchAll (k # ks) d m = touchAll ks d (map_touch k d m)"
    by (simp add: touchAll_def)
  with Cons [of "map_touch k d m"] show ?case
    by (auto simp: map_find_map_touch)
qed

lemma perLatency_afterPriority: "perLatency l (afterPriority l' t) = perLatency l t"
  by (simp add: afterPriority_def perLatency_def map_at_map_touch)

lemma perLatency_fold_afterPriority: "perLatency l (fold afterPriority ls t) = perLatency l t"
  by (induction ls arbitrary: t) (simp_all add: perLatency_afterPriority)

lemma recordStatsPerLatency_fold_afterPriority:
  "recordStatsPerLatency (fold afterPriority ls t)
     = touchAll ls newRecordStats (recordStatsPerLatency t)"
  by (induction ls arbitrary: t) (simp_all add: touchAll_def afterPriority_def)

lemma sendLatency_fold_afterPriority:
  "map_find j (logToSuccessfulSendLatencyPerLatency (fold afterPriority ls t))
     = (if j \<in> set ls \<and> 0 < sentCount (perLatency j t)
           \<and> map_find j (logToSuccessfulSendLatencyPerLatency t) = None
        then Some newLatencyStats
        else map_find j (logToSuccessfulSendLatencyPerLatency t))"
proof (induction ls arbitrary: t)
  case Nil
  then show ?case by simp
next
  case (Cons l ls)
  have step: "map_find i (logToSuccessfulSendLatencyPerLatency (afterPriority l t))
     = (if i = l \<and> 0 < sentCount (perLatency l t)
           \<and> map_find i (logToSuccessfulSendLatencyPerLatency t) = None
        then Some newLatencyStats
        else map_find i (logToSuccessfulSendLatencyPerLatency t))" for i
    by (auto simp: afterPriority_def map_find_map_touch)
  from Cons [of "afterPriority l t"] show ?case
    by (auto simp: perLatency_afterPriority step)
qed

lemma fold_afterPriority_frame:
  "(fold afterPriority ls t)\<lparr> recordStatsPerLatency := a, logToSuccessfulSendLatencyPerLatency := b \<rparr>
     = t\<lparr> recordStatsPerLatency := a, logToSuccessfulSendLatencyPerLatency := b \<rparr>"
  by (induction ls arbitrary: t) (simp_all add: afterPriority_def)

lemma recordStats_fold_afterPriority: "recordStats (fold afterPriority ls t) = recordStats t"
  by (induction ls arbitrary: t) (simp_all add: afterPriority_def)

lemma afterSnapshot_frame:
  "(afterSnapshot E t)
     \<lparr> recordStats := (recordStats (afterSnapshot E t))
          \<lparr> rejectedCountReasonDistribution := rejectedCountReasonDistribution (recordStats t),
            droppedCountReasonDistribution := droppedCountReasonDistribution (recordStats t) \<rparr>,
       recordStatsPerLatency := recordStatsPerLatency t,
       logToSuccessfulSendLatencyPerLatency := logToSuccessfulSendLatencyPerLatency t \<rparr> = t"
proof -
  let ?u = "afterSnapshot E t"
  have A: "?u\<lparr> recordStatsPerLatency := recordStatsPerLatency t,
       logToSuccessfulSendLatencyPerLatency := logToSuccessfulSendLatencyPerLatency t \<rparr>
     = afterReasons E t"
    by (simp add: afterSnapshot_def fold_afterPriority_frame afterReasons_def)
  have B: "(recordStats ?u)
          \<lparr> rejectedCountReasonDistribution := rejectedCountReasonDistribution (recordStats t),
            droppedCountReasonDistribution := droppedCountReasonDistribution (recordStats t) \<rparr>
        = recordStats t"
    by (simp add: afterSnapshot_def recordStats_fold_afterPriority afterReasons_def)
  have "?u\<lparr> recordStats := recordStats t, recordStatsPerLatency := recordStatsPerLatency t,
       logToSuccessfulSendLatencyPerLatency := logToSuccessfulSendLatencyPerLatency t \<rparr>
     = (?u\<lparr> recordStatsPerLatency := recordStatsPerLatency t,
       logToSuccessfulSendLatencyPerLatency := logToSuccessfulSendLatencyPerLatency t \<rparr>)
         \<lparr> recordStats := recordStats t \<rparr>"
    by simp
  also have "\<dots> = (afterReasons E t)\<lparr> recordStats := recordStats t \<rparr>"
    by (simp only: A)
  also have "\<dots> = t"
    by (simp add: afterReasons_def)
  finally show ?thesis by (simp only: B)
qed

text \<open>
  Claim C10. The projection of a row into a record changes the row in four maps and nowhere
  else: each of the nine rejection reasons and of the two dropped reasons that it reads
  gains an entry with count 0 where it had none; each of the four latency classes gains a
  new entry in the per-class record statistics where it had none and, on condition that
  records of that class were sent, a new entry in the send-latency statistics where it had
  none; every entry that existed keeps its value, and putting the four maps back gives the
  row as it was.
\<close>

theorem privateSnapStatsToRecord_frame:
  "(\<forall>k. map_find k (rejectedCountReasonDistribution
                    (recordStats (snd (privateSnapStatsToRecord E ms now rollupKind t))))
        = (if k \<in> set (snapshotRejectedReasons E)
              \<and> map_find k (rejectedCountReasonDistribution (recordStats t)) = None
           then Some 0 else map_find k (rejectedCountReasonDistribution (recordStats t))))
   \<and> (\<forall>k. map_find k (droppedCountReasonDistribution
                    (recordStats (snd (privateSnapStatsToRecord E ms now rollupKind t))))
        = (if k \<in> set (snapshotDroppedReasons E)
              \<and> map_find k (droppedCountReasonDistribution (recordStats t)) = None
           then Some 0 else map_find k (droppedCountReasonDistribution (recordStats t))))
   \<and> (\<forall>l. map_find l (recordStatsPerLatency (snd (privateSnapStatsToRecord E ms now rollupKind t)))
        = (if l \<in> set (snapshotLatencies E) \<and> map_find l (recordStatsPerLatency t) = None
           then Some newRecordStats else map_find l (recordStatsPerLatency t)))
   \<and> (\<forall>l. map_find l (logToSuccessfulSendLatencyPerLatency
                    (snd (privateSnapStatsToRecord E ms now rollupKind t)))
        = (if l \<in> set (snapshotLatencies E) \<and> 0 < sentCount (perLatency l t)
              \<and> map_find l (logToSuccessfulSendLatencyPerLatency t) = None
           then Some newLatencyStats else map_find l (logToSuccessfulSendLatencyPerLatency t)))
   \<and> (snd (privateSnapStatsToRecord E ms now rollupKind t))
        \<lparr> recordStats := (recordStats (snd (privateSnapStatsToRecord E ms now rollupKind t)))
            \<lparr> rejectedCountReasonDistribution := rejectedCountReasonDistribution (recordStats t),
              droppedCountReasonDistribution := droppedCountReasonDistribution (recordStats t) \<rparr>,
          recordStatsPerLatency := recordStatsPerLatency t,
          logToSuccessfulSendLatencyPerLatency := logToSuccessfulSendLatencyPerLatency t \<rparr> = t"
proof -
  have rs: "recordStats (afterSnapshot E t) = recordStats (afterReasons E t)"
    by (simp add: afterSnapshot_def recordStats_fold_afterPriority)
  have pl: "perLatency l (afterReasons E t) = perLatency l t" for l
    by (simp add: afterReasons_def perLatency_def)
  show ?thesis
    unfolding privateSnapStatsToRecord_row
  proof (intro conjI allI)
    fix k
    show "map_find k (rejectedCountReasonDistribution (recordStats (afterSnapshot E t)))
        = (if k \<in> set (snapshotRejectedReasons E)
              \<and> map_find k (rejectedCountReasonDistribution (recordStats t)) = None
           then Some 0 else map_find k (rejectedCountReasonDistribution (recordStats t)))"
      by (simp add: rs afterReasons_def map_find_touchAll)
    show "map_find k (droppedCountReasonDistribution (recordStats (afterSnapshot E t)))
        = (if k \<in> set (snapshotDroppedReasons E)
              \<and> map_find k (droppedCountReasonDistribution (recordStats t)) = None
           then Some 0 else map_find k (droppedCountReasonDistribution (recordStats t)))"
      by (simp add: rs afterReasons_def map_find_touchAll)
  next
    fix l
    show "map_find l (recordStatsPerLatency (afterSnapshot E t))
        = (if l \<in> set (snapshotLatencies E) \<and> map_find l (recordStatsPerLatency t) = None
           then Some newRecordStats else map_find l (recordStatsPerLatency t))"
      by (simp add: afterSnapshot_def recordStatsPerLatency_fold_afterPriority
            map_find_touchAll afterReasons_def)
    show "map_find l (logToSuccessfulSendLatencyPerLatency (afterSnapshot E t))
        = (if l \<in> set (snapshotLatencies E) \<and> 0 < sentCount (perLatency l t)
              \<and> map_find l (logToSuccessfulSendLatencyPerLatency t) = None
           then Some newLatencyStats else map_find l (logToSuccessfulSendLatencyPerLatency t))"
      by (simp add: afterSnapshot_def sendLatency_fold_afterPriority pl) (simp add: afterReasons_def)
  next
    show "(afterSnapshot E t)
     \<lparr> recordStats := (recordStats (afterSnapshot E t))
          \<lparr> rejectedCountReasonDistribution := rejectedCountReasonDistribution (recordStats t),
            droppedCountReasonDistribution := droppedCountReasonDistribution (recordStats t) \<rparr>,
       recordStatsPerLatency := recordStatsPerLatency t,
       logToSuccessfulSendLatencyPerLatency := logToSuccessfulSendLatencyPerLatency t \<rparr> = t"
      by (rule afterSnapshot_frame)
  qed
qed

section \<open>The availability of statistics data\<close>

lemma fold_add_sum_list:
  "fold (\<lambda>t acc. acc + f t) rows (a :: u32) = a + sum_list (map f rows)"
  by (induction rows arbitrary: a) (simp_all add: add.assoc)

lemma sum_list_word_zero:
  "(\<forall>t \<in> set rows. f t = (0 :: u32)) \<Longrightarrow> sum_list (map f rows) = 0"
  by (induction rows) simp_all

lemma unat_sum_list_fit:
  "sum_list (map (\<lambda>t. unat (f t)) rows) < 2 ^ 32 \<Longrightarrow>
   unat (sum_list (map f rows) :: u32) = sum_list (map (\<lambda>t. unat (f t)) rows)"
proof (induction rows)
  case Nil
  then show ?case by simp
next
  case (Cons t rows)
  then have IH: "unat (sum_list (map f rows)) = sum_list (map (\<lambda>t. unat (f t)) rows)" by simp
  from Cons.prems have "unat (f t) + unat (sum_list (map f rows)) < 2 ^ LENGTH(32)"
    by (simp add: IH)
  then have "unat (f t + sum_list (map f rows)) = unat (f t) + unat (sum_list (map f rows))"
    by (simp only: unat_add_lem)
  with IH show ?case by simp
qed

lemma sum_list_nat_pos:
  "t \<in> set rows \<Longrightarrow> 0 < g t \<Longrightarrow> 0 < sum_list (map g rows)" for g :: "'a \<Rightarrow> nat"
  by (induction rows) auto

lemma word_sum_pos_some:
  assumes "0 < (sum_list (map f rows) :: u32)"
  shows "\<exists>t \<in> set rows. f t \<noteq> 0"
proof (rule ccontr)
  assume "\<not> (\<exists>t \<in> set rows. f t \<noteq> 0)"
  then have "\<forall>t \<in> set rows. f t = 0" by simp
  then have "sum_list (map f rows) = 0" by (rule sum_list_word_zero)
  with assms show False by simp
qed

lemma word_sum_pos_iff:
  assumes "sum_list (map (\<lambda>t. unat (f t)) rows) < 2 ^ 32"
  shows "0 < (sum_list (map f rows) :: u32) \<longleftrightarrow> (\<exists>t \<in> set rows. f t \<noteq> 0)"
proof
  assume "0 < sum_list (map f rows)"
  then show "\<exists>t \<in> set rows. f t \<noteq> 0" by (rule word_sum_pos_some)
next
  assume "\<exists>t \<in> set rows. f t \<noteq> 0"
  then obtain t where t: "t \<in> set rows" "f t \<noteq> 0" by auto
  then have "0 < unat (f t)" by (simp add: unat_gt_0)
  with t(1) have "0 < sum_list (map (\<lambda>t. unat (f t)) rows)" by (rule sum_list_nat_pos)
  with unat_sum_list_fit [OF assms] have "0 < unat (sum_list (map f rows))" by simp
  then show "0 < sum_list (map f rows)" by (simp add: unat_gt_0 word_gt_0)
qed

lemma hasStatsDataAvailable_sums:
  "hasStatsDataAvailable ms =
     (0 < sum_list (map (\<lambda>x. rejectedCount (recordStats (snd x))) (m_telemetryTenantStats ms))
      \<or> 0 < sum_list (map (\<lambda>x. bannedCount (recordStats (snd x))) (m_telemetryTenantStats ms))
      \<or> 0 < sum_list (map (\<lambda>x. droppedCount (recordStats (snd x))) (m_telemetryTenantStats ms))
      \<or> 0 < sum_list (map (\<lambda>x. receivedCount (recordStats (snd x))
                                  - receivedMetastatsCount (recordStats (snd x)))
                          (m_telemetryTenantStats ms))
      \<or> totalPkgsAcked (packageStats (m_telemetryStats ms))
             > totalMetastatsOnlyPkgsAcked (packageStats (m_telemetryStats ms))
      \<or> totalPkgsToBeAcked (packageStats (m_telemetryStats ms))
             > totalMetastatsOnlyPkgsToBeAcked (packageStats (m_telemetryStats ms)))"
  by (simp add: hasStatsDataAvailable_def Let_def fold_add_sum_list comp_def)

text \<open>
  Claim C2, amended. Whenever \<open>hasStatsDataAvailable\<close> is true, some tenant row has a
  non-zero rejected, banned or dropped counter or a non-zero difference of received and
  received meta-statistics records, or the global package statistics show activity that is
  not meta-statistics only; and when the sums of these counters over all tenant rows fit
  into 32 bits, \<open>hasStatsDataAvailable\<close> is true if and only if that is the case.
\<close>

theorem hasStatsDataAvailable_iff:
  "(hasStatsDataAvailable ms \<longrightarrow> anyActivity ms)
   \<and> (sumsFit ms \<longrightarrow> (hasStatsDataAvailable ms \<longleftrightarrow> anyActivity ms))"
proof -
  let ?rows = "m_telemetryTenantStats ms"
  have forward: "anyActivity ms" if "hasStatsDataAvailable ms"
  proof -
    from that consider
        "0 < sum_list (map (\<lambda>x. rejectedCount (recordStats (snd x))) ?rows)"
      | "0 < sum_list (map (\<lambda>x. bannedCount (recordStats (snd x))) ?rows)"
      | "0 < sum_list (map (\<lambda>x. droppedCount (recordStats (snd x))) ?rows)"
      | "0 < sum_list (map (\<lambda>x. receivedCount (recordStats (snd x))
                                  - receivedMetastatsCount (recordStats (snd x))) ?rows)"
      | "totalPkgsAcked (packageStats (m_telemetryStats ms))
             > totalMetastatsOnlyPkgsAcked (packageStats (m_telemetryStats ms))
         \<or> totalPkgsToBeAcked (packageStats (m_telemetryStats ms))
             > totalMetastatsOnlyPkgsToBeAcked (packageStats (m_telemetryStats ms))"
      unfolding hasStatsDataAvailable_sums by auto
    then show ?thesis
    proof cases
      case 1
      from word_sum_pos_some [OF this] show ?thesis unfolding anyActivity_def by auto
    next
      case 2
      from word_sum_pos_some [OF this] show ?thesis unfolding anyActivity_def by auto
    next
      case 3
      from word_sum_pos_some [OF this] show ?thesis unfolding anyActivity_def by auto
    next
      case 4
      from word_sum_pos_some [OF this] show ?thesis unfolding anyActivity_def by auto
    next
      case 5
      then show ?thesis unfolding anyActivity_def by auto
    qed
  qed
  have backward: "hasStatsDataAvailable ms" if fit: "sumsFit ms" and act: "anyActivity ms"
  proof -
    from fit have fits:
      "sum_list (map (\<lambda>x. unat (rejectedCount (recordStats (snd x)))) ?rows) < 2 ^ 32"
      "sum_list (map (\<lambda>x. unat (bannedCount (recordStats (snd x)))) ?rows) < 2 ^ 32"
      "sum_list (map (\<lambda>x. unat (droppedCount (recordStats (snd x)))) ?rows) < 2 ^ 32"
      "sum_list (map (\<lambda>x. unat (receivedCount (recordStats (snd x))
                                  - receivedMetastatsCount (recordStats (snd x)))) ?rows) < 2 ^ 32"
      by (simp_all add: sumsFit_def sumOver_def)
    from act show ?thesis
      unfolding hasStatsDataAvailable_sums anyActivity_def
        word_sum_pos_iff [OF fits(1)] word_sum_pos_iff [OF fits(2)]
        word_sum_pos_iff [OF fits(3)] word_sum_pos_iff [OF fits(4)]
      by auto
  qed
  from forward backward show ?thesis by auto
qed

theorem hasStatsDataAvailable_iff_witness:
  "sumsFit (updateOnRecordsRejected exampleEngine 0 [(''a'', 1)])
   \<and> anyActivity (updateOnRecordsRejected exampleEngine 0 [(''a'', 1)])
   \<and> hasStatsDataAvailable (updateOnRecordsRejected exampleEngine 0 [(''a'', 1)])"
proof -
  let ?S = "updateOnRecordsRejected exampleEngine 0 [(''a'', 1)]"
  have rows: "map (\<lambda>x. (fst x, recordStats (snd x))) (m_telemetryTenantStats ?S)
                = [(''a'', newRecordStats\<lparr> rejectedCountReasonDistribution := [(0, 1)], rejectedCount := 1 \<rparr>)]"
    by (simp add: updateOnRecordsRejected_def exampleEngine_def newMetaStats_def resetStats_def
          Let_def onTenant_def map_at_def map_find_def newTelemetryStats_def map_add_at_def newRecordStats_def)
  have fit: "sumsFit ?S"
    by (simp add: sumsFit_def sumOver_def updateOnRecordsRejected_def exampleEngine_def
          newMetaStats_def resetStats_def
          Let_def onTenant_def map_at_def map_find_def newTelemetryStats_def map_add_at_def newRecordStats_def)
  have act: "anyActivity ?S"
    by (simp add: anyActivity_def updateOnRecordsRejected_def exampleEngine_def
          newMetaStats_def resetStats_def
          Let_def onTenant_def map_at_def map_find_def newTelemetryStats_def map_add_at_def newRecordStats_def)
  from hasStatsDataAvailable_iff [of ?S] fit act show ?thesis by blast
qed

text \<open>
  Claim C2 as stated fails where a sum wraps around: after the rejection of \<open>2^31\<close>
  records of each of two tenants, both rows have a non-zero rejected counter, and the
  \<open>unsigned int\<close> sum of the two is 0.
\<close>

theorem hasStatsDataAvailable_wraps_counterexample:
  "map (\<lambda>x. (fst x, rejectedCount (recordStats (snd x))))
     (m_telemetryTenantStats
        (updateOnRecordsRejected exampleEngine 0 [(''a'', 0x80000000), (''b'', 0x80000000)]))
     = [(''a'', 0x80000000), (''b'', 0x80000000)]
   \<and> anyActivity (updateOnRecordsRejected exampleEngine 0 [(''a'', 0x80000000), (''b'', 0x80000000)])
   \<and> \<not> hasStatsDataAvailable
         (updateOnRecordsRejected exampleEngine 0 [(''a'', 0x80000000), (''b'', 0x80000000)])"
  by (simp add: hasStatsDataAvailable_def anyActivity_def updateOnRecordsRejected_def
        exampleEngine_def newMetaStats_def resetStats_def Let_def onTenant_def map_at_def
        map_find_def newTelemetryStats_def newRecordStats_def map_add_at_def newPackageStats_def)

section \<open>The rollup\<close>

lemma valuesZero_Nil: "valuesZero []"
  by (simp add: valuesZero_def)

lemma valuesZero_clearMapValues: "valuesZero (clearMapValues m)"
  by (induction m) (simp_all add: valuesZero_def clearMapValues_def)

lemma recordCountersZero_Reset: "recordCountersZero (RecordStats_Reset r)"
  by (simp add: recordCountersZero_def RecordStats_Reset_def valuesZero_clearMapValues)

lemma packageCountersZero_Reset: "packageCountersZero (PackageStats_Reset p)"
  by (simp add: packageCountersZero_def PackageStats_Reset_def valuesZero_clearMapValues)

lemma resetTenantStats_ongoing_session:
  "statsSequenceNum (resetTenantStats cfg sid now False t) = statsSequenceNum t + 1
   \<and> sessionStartTimestamp (resetTenantStats cfg sid now False t) = sessionStartTimestamp t
   \<and> statsStartTimestamp (resetTenantStats cfg sid now False t) = now
   \<and> sessionId (resetTenantStats cfg sid now False t) = sid
   \<and> tenantId (resetTenantStats cfg sid now False t) = tenantId t"
  by (cases "offlineStorageEnabled t") (simp_all add: resetTenantStats_def Let_def)

lemma resetTenantStats_ongoing_zero:
  "rowCountersZero (resetTenantStats cfg sid now False t)"
  by (cases "offlineStorageEnabled t")
     (simp_all add: resetTenantStats_def Let_def rowCountersZero_def recordCountersZero_def
        packageCountersZero_def RecordStats_Reset_def PackageStats_Reset_def
        LatencyStats_Reset_def OfflineStorageStats_Reset_def valuesZero_clearMapValues
        valuesZero_Nil list_all_iff)

lemma afterSnapshot_session:
  "statsSequenceNum (afterSnapshot E t) = statsSequenceNum t
   \<and> sessionStartTimestamp (afterSnapshot E t) = sessionStartTimestamp t"
  using arg_cong [OF afterSnapshot_frame [where E = E and t = t], of statsSequenceNum]
        arg_cong [OF afterSnapshot_frame [where E = E and t = t], of sessionStartTimestamp]
  by simp

lemma generateStatsEvent_tenants:
  "rollupKind \<noteq> ACT_STATS_ROLLUP_KIND_ONGOING \<Longrightarrow>
   m_telemetryTenantStats (snd (generateStatsEvent E ms now rollupKind))
     = map (\<lambda>x. (fst x,
              if rollupKind = ACT_STATS_ROLLUP_KIND_STOP
              then privateClearStats
                     (resetTenantStats (m_statsConfig ms) (m_sessionId ms) now False
                        (afterSnapshot E (snd x)))
              else resetTenantStats (m_statsConfig ms) (m_sessionId ms) now False
                     (afterSnapshot E (snd x))))
         (m_telemetryTenantStats ms)"
  by (simp add: generateStatsEvent_def snapStatsToRecord_def Let_def resetStats_def
        clearStats_def privateSnapStatsToRecord_row comp_def)

lemma generateStatsEvent_global:
  "rollupKind \<noteq> ACT_STATS_ROLLUP_KIND_ONGOING \<Longrightarrow>
   m_telemetryStats (snd (generateStatsEvent E ms now rollupKind))
     = (if rollupKind = ACT_STATS_ROLLUP_KIND_STOP
        then privateClearStats
               (afterSnapshot E ((m_telemetryStats ms)
                  \<lparr> tenantId := tenantIdOf (MetaStatsTenantToken (m_config ms)) \<rparr>))
        else afterSnapshot E ((m_telemetryStats ms)
                  \<lparr> tenantId := tenantIdOf (MetaStatsTenantToken (m_config ms)) \<rparr>))"
  by (simp add: generateStatsEvent_def snapStatsToRecord_def Let_def resetStats_def
        clearStats_def privateSnapStatsToRecord_row comp_def)

lemma generateStatsEvent_records:
  "rollupKind \<noteq> ACT_STATS_ROLLUP_KIND_ONGOING \<Longrightarrow>
   length (fst (generateStatsEvent E ms now rollupKind)) = length (m_telemetryTenantStats ms) + 1"
  by (simp add: generateStatsEvent_def snapStatsToRecord_def Let_def)

text \<open>
  Claim C1, amended. A start rollup returns one record per tenant row and one for the
  global row, and then resets with \<open>start = false\<close>: afterwards every tenant row has its
  sequence number incremented by one (modulo \<open>2^32\<close>), its session start time unchanged,
  its statistics start time refreshed to the time of the call, the session identifier of
  the engine, and a counter state of zero.
\<close>

theorem generateStatsEvent_start_resets_ongoing:
  "length (fst (generateStatsEvent E ms now ACT_STATS_ROLLUP_KIND_START))
     = length (m_telemetryTenantStats ms) + 1
   \<and> map (\<lambda>x. (fst x, statsSequenceNum (snd x)))
         (m_telemetryTenantStats (snd (generateStatsEvent E ms now ACT_STATS_ROLLUP_KIND_START)))
       = map (\<lambda>x. (fst x, statsSequenceNum (snd x) + 1)) (m_telemetryTenantStats ms)
   \<and> map (\<lambda>x. sessionStartTimestamp (snd x))
         (m_telemetryTenantStats (snd (generateStatsEvent E ms now ACT_STATS_ROLLUP_KIND_START)))
       = map (\<lambda>x. sessionStartTimestamp (snd x)) (m_telemetryTenantStats ms)
   \<and> list_all (\<lambda>x. statsStartTimestamp (snd x) = now \<and> sessionId (snd x) = m_sessionId ms
                     \<and> rowCountersZero (snd x))
         (m_telemetryTenantStats (snd (generateStatsEvent E ms now ACT_STATS_ROLLUP_KIND_START)))"
  by (simp add: generateStatsEvent_records generateStatsEvent_tenants comp_def
        resetTenantStats_ongoing_session resetTenantStats_ongoing_zero afterSnapshot_session
        list_all_iff)

lemma rejectedThrice_rows:
  "map (\<lambda>x. (fst x, statsSequenceNum (snd x), sessionStartTimestamp (snd x)))
     (m_telemetryTenantStats rejectedThrice) = [(''t1-x'', 0, 0)]"
  by (simp add: rejectedThrice_def updateOnRecordsRejected_def exampleEngine_def
        newMetaStats_def resetStats_def Let_def onTenant_def map_at_def map_find_def
        newTelemetryStats_def)

text \<open>
  Claim C1 as stated fails on an engine with a tenant row: after a start rollup at time
  2000 the sequence number of the row is 1, not 0, and its session start time is still 0.
\<close>

theorem generateStatsEvent_start_counterexample:
  "map (\<lambda>x. (fst x, statsSequenceNum (snd x), sessionStartTimestamp (snd x)))
     (m_telemetryTenantStats rejectedThrice) = [(''t1-x'', 0, 0)]
   \<and> map (\<lambda>x. (fst x, statsSequenceNum (snd x), sessionStartTimestamp (snd x)))
       (m_telemetryTenantStats
          (snd (generateStatsEvent exampleEnumerators rejectedThrice 2000 ACT_STATS_ROLLUP_KIND_START)))
     = [(''t1-x'', 1, 0)]"
proof -
  have rows: "map (\<lambda>x. (fst x, statsSequenceNum (snd x) + 1, sessionStartTimestamp (snd x)))
     (m_telemetryTenantStats rejectedThrice) = [(''t1-x'', 1, 0)]"
    by (simp add: rejectedThrice_def updateOnRecordsRejected_def exampleEngine_def
        newMetaStats_def resetStats_def Let_def onTenant_def map_at_def map_find_def
        newTelemetryStats_def)
  have "map (\<lambda>x. (fst x, statsSequenceNum (snd x), sessionStartTimestamp (snd x)))
       (m_telemetryTenantStats
          (snd (generateStatsEvent exampleEnumerators rejectedThrice 2000 ACT_STATS_ROLLUP_KIND_START)))
     = map (\<lambda>x. (fst x, statsSequenceNum (snd x) + 1, sessionStartTimestamp (snd x)))
         (m_telemetryTenantStats rejectedThrice)"
    by (simp add: generateStatsEvent_tenants comp_def resetTenantStats_ongoing_session
          afterSnapshot_session)
  with rows rejectedThrice_rows show ?thesis by (simp only: simp_thms)
qed

lemma clearedMaps_privateClearStats: "clearedMaps (privateClearStats t)"
  by (simp add: clearedMaps_def privateClearStats_def Let_def)

lemma recordStats_privateClearStats:
  "rejectedCountReasonDistribution (recordStats (privateClearStats t))
     = rejectedCountReasonDistribution (recordStats t)
   \<and> droppedCountReasonDistribution (recordStats (privateClearStats t))
     = droppedCountReasonDistribution (recordStats t)
   \<and> recordStatsPerLatency (privateClearStats t) = recordStatsPerLatency t"
  by (simp add: privateClearStats_def Let_def)

lemma afterSnapshot_maps:
  "rejectedCountReasonDistribution (recordStats (afterSnapshot E t))
     = touchAll (snapshotRejectedReasons E) 0 (rejectedCountReasonDistribution (recordStats t))
   \<and> droppedCountReasonDistribution (recordStats (afterSnapshot E t))
     = touchAll (snapshotDroppedReasons E) 0 (droppedCountReasonDistribution (recordStats t))
   \<and> recordStatsPerLatency (afterSnapshot E t)
     = touchAll (snapshotLatencies E) newRecordStats (recordStatsPerLatency t)"
  by (simp add: afterSnapshot_def recordStats_fold_afterPriority
        recordStatsPerLatency_fold_afterPriority afterReasons_def)

text \<open>
  Claim C4, amended. After a stop rollup the tenant map has the tenants it had; in every
  tenant row and in the global row the maps that \<open>privateClearStats\<close> names are empty
  (the package maps by HTTP code, the retry-count distribution, the round-trip and
  send-latency distributions, the size histogram, the maps by event type, the dropped
  counts by HTTP code and the storage histograms); the reason maps and the per-class record
  statistics of the global row are not cleared: they are those before the rollup with the
  entries that the projection inserted.
\<close>

theorem generateStatsEvent_stop_clears:
  "map fst (m_telemetryTenantStats (snd (generateStatsEvent E ms now ACT_STATS_ROLLUP_KIND_STOP)))
     = map fst (m_telemetryTenantStats ms)
   \<and> list_all (\<lambda>x. clearedMaps (snd x))
         (m_telemetryTenantStats (snd (generateStatsEvent E ms now ACT_STATS_ROLLUP_KIND_STOP)))
   \<and> clearedMaps (m_telemetryStats (snd (generateStatsEvent E ms now ACT_STATS_ROLLUP_KIND_STOP)))
   \<and> rejectedCountReasonDistribution
         (recordStats (m_telemetryStats (snd (generateStatsEvent E ms now ACT_STATS_ROLLUP_KIND_STOP))))
       = touchAll (snapshotRejectedReasons E) 0
           (rejectedCountReasonDistribution (recordStats (m_telemetryStats ms)))
   \<and> droppedCountReasonDistribution
         (recordStats (m_telemetryStats (snd (generateStatsEvent E ms now ACT_STATS_ROLLUP_KIND_STOP))))
       = touchAll (snapshotDroppedReasons E) 0
           (droppedCountReasonDistribution (recordStats (m_telemetryStats ms)))
   \<and> recordStatsPerLatency
         (m_telemetryStats (snd (generateStatsEvent E ms now ACT_STATS_ROLLUP_KIND_STOP)))
       = touchAll (snapshotLatencies E) newRecordStats (recordStatsPerLatency (m_telemetryStats ms))"
  by (simp add: generateStatsEvent_tenants generateStatsEvent_global comp_def
        clearedMaps_privateClearStats recordStats_privateClearStats afterSnapshot_maps
        list_all_iff)

text \<open>
  Claim C4 as stated fails on an engine with a tenant row: after a stop rollup the tenant
  map still has the tenant, and the rejection-reason map of the global row has nine
  entries.
\<close>

theorem generateStatsEvent_stop_counterexample:
  "map fst (m_telemetryTenantStats
       (snd (generateStatsEvent exampleEnumerators rejectedThrice 2000 ACT_STATS_ROLLUP_KIND_STOP)))
     = [''t1-x'']
   \<and> rejectedCountReasonDistribution
         (recordStats (m_telemetryStats
            (snd (generateStatsEvent exampleEnumerators rejectedThrice 2000 ACT_STATS_ROLLUP_KIND_STOP))))
     = [(0, 3), (1, 0), (2, 0), (3, 0), (4, 0), (5, 0), (7, 0), (8, 0), (9, 0)]"
proof -
  have keys: "map fst (m_telemetryTenantStats rejectedThrice) = [''t1-x'']"
    by (simp add: rejectedThrice_def updateOnRecordsRejected_def exampleEngine_def
        newMetaStats_def resetStats_def Let_def onTenant_def map_at_def map_find_def)
  have global: "rejectedCountReasonDistribution (recordStats (m_telemetryStats rejectedThrice))
      = [(0, 3)]"
    by (simp add: rejectedThrice_def updateOnRecordsRejected_def exampleEngine_def
        newMetaStats_def resetStats_def Let_def onTenant_def map_at_def map_find_def
        newTelemetryStats_def newRecordStats_def map_add_at_def)
  have touched: "touchAll (snapshotRejectedReasons exampleEnumerators) 0 [(0, 3)]
      = [(0, 3), (1, 0), (2, 0), (3, 0), (4, 0), (5, 0), (7, 0), (8, 0), (9, 0)]"
    by (simp add: touchAll_def snapshotRejectedReasons_def exampleEnumerators_def
          map_touch_def map_find_def)
  show ?thesis
    by (simp add: generateStatsEvent_tenants generateStatsEvent_global comp_def keys
          recordStats_privateClearStats afterSnapshot_maps global touched)
qed

section \<open>The mutators and the rejection reasons in a record\<close>

text \<open>
  Claim C9. On a newly constructed engine on which only \<open>updateOnPostData(2048, true)\<close>
  was called, the availability test is false, an ongoing rollup returns no record and
  leaves the engine as it is, and the engine differs from the new one by the additions of
  that call only: 2048 bytes consumed, one package posted, one meta-statistics-only
  package posted.
\<close>

theorem ongoing_after_metastats_only_post:
  "\<not> hasStatsDataAvailable (updateOnPostData (newMetaStats config statsConfig now uuid) 2048 True)
   \<and> generateStatsEvent E (updateOnPostData (newMetaStats config statsConfig now uuid) 2048 True)
         now' ACT_STATS_ROLLUP_KIND_ONGOING
       = ([], updateOnPostData (newMetaStats config statsConfig now uuid) 2048 True)
   \<and> updateOnPostData (newMetaStats config statsConfig now uuid) 2048 True
       = (newMetaStats config statsConfig now uuid)
           \<lparr> m_telemetryStats := (m_telemetryStats (newMetaStats config statsConfig now uuid))
               \<lparr> packageStats := newPackageStats
                   \<lparr> totalBandwidthConsumedInBytes := 2048, totalPkgsToBeAcked := 1,
                     totalMetastatsOnlyPkgsToBeAcked := 1 \<rparr> \<rparr> \<rparr>"
proof -
  let ?ms = "updateOnPostData (newMetaStats config statsConfig now uuid) 2048 True"
  have no: "\<not> hasStatsDataAvailable ?ms"
    by (simp add: hasStatsDataAvailable_def updateOnPostData_def newMetaStats_def resetStats_def
          newTelemetryStats_def newPackageStats_def Let_def)
  then have "generateStatsEvent E ?ms now' ACT_STATS_ROLLUP_KIND_ONGOING = ([], ?ms)"
    by (simp add: generateStatsEvent_def)
  moreover have "?ms = (newMetaStats config statsConfig now uuid)
           \<lparr> m_telemetryStats := (m_telemetryStats (newMetaStats config statsConfig now uuid))
               \<lparr> packageStats := newPackageStats
                   \<lparr> totalBandwidthConsumedInBytes := 2048, totalPkgsToBeAcked := 1,
                     totalMetastatsOnlyPkgsToBeAcked := 1 \<rparr> \<rparr> \<rparr>"
    by (simp add: updateOnPostData_def newMetaStats_def resetStats_def
          newTelemetryStats_def newPackageStats_def Let_def)
  ultimately show ?thesis using no by simp
qed

text \<open>
  Claim C3 against the code. \<open>updateOnRecordsRejected\<close> never changes the rejected counter
  of the global row: after the rejection of three records of one tenant on a new engine,
  the tenant row counts 3 and the reason map of the global row counts 3, and the rejected
  counter of the global row is 0. The sibling \<open>updateOnRecordsDropped\<close> does add the sum
  to the dropped counter of the global row.
\<close>

theorem updateOnRecordsRejected_misses_global_count:
  "rejectedCount (recordStats (m_telemetryStats (updateOnRecordsRejected ms reason rejectedCounts)))
     = rejectedCount (recordStats (m_telemetryStats ms))
   \<and> map (\<lambda>x. (fst x, rejectedCount (recordStats (snd x))))
         (m_telemetryTenantStats (updateOnRecordsRejected exampleEngine 0 [(''t1-x'', 3)]))
       = [(''t1-x'', 3)]
   \<and> rejectedCountReasonDistribution
         (recordStats (m_telemetryStats (updateOnRecordsRejected exampleEngine 0 [(''t1-x'', 3)])))
       = [(0, 3)]
   \<and> rejectedCount
         (recordStats (m_telemetryStats (updateOnRecordsRejected exampleEngine 0 [(''t1-x'', 3)])))
       = 0
   \<and> droppedCount
         (recordStats (m_telemetryStats (updateOnRecordsDropped exampleEngine 0 [(''t1-x'', 3)])))
       = 3"
  by (simp add: updateOnRecordsRejected_def updateOnRecordsDropped_def exampleEngine_def
        newMetaStats_def resetStats_def Let_def onTenant_def map_at_def map_find_def
        newTelemetryStats_def newRecordStats_def map_add_at_def)

lemma rejectedTwice_row:
  "m_telemetryTenantStats rejectedTwice
     = [(''t1-x'', newTelemetryStats\<lparr> recordStats := newRecordStats
         \<lparr> rejectedCountReasonDistribution := [(0, 2), (2, 1)], rejectedCount := 3 \<rparr> \<rparr>)]"
  by (simp add: rejectedTwice_def updateOnRecordsRejected_def exampleEngine_def exampleEnumerators_def
        newMetaStats_def resetStats_def Let_def onTenant_def map_at_def map_find_def
        newTelemetryStats_def newRecordStats_def map_add_at_def)

lemma rejectedTwice_config:
  "m_config rejectedTwice = exampleConfig \<and> m_sessionId rejectedTwice = ''session''"
  by (simp add: rejectedTwice_def updateOnRecordsRejected_def exampleEngine_def
        newMetaStats_def resetStats_def Let_def)

lemmas snapshot_defs =
  privateSnapStatsToRecord_def snapSessionFields_def snapPackageStats_def snapRecordStats_def
  snapLowPriority_def snapNormalPriority_def snapHighPriority_def snapImmediatePriority_def
  startRecord_def sequence_def put_def assign_def whenever_def onRecord_def bindRecordStats_def
  bindLatencyStats_def perLatency_def sendLatency_def rejectedReasons_def putDroppedReason_def
  addRecordsPerRejectedReasonToRecordFields_def insertReason_def
  addCountsPerHttpReturnCodeToRecordFields_def addAggregatedNamesToRecordFields_def
  addAggregatedMapToRecordFields_def insertNonZero_def onProperties_def ensureData_def
  map_touch_def map_at_def map_find_def tenantIdOf_def toString_def digits.simps Let_def

lemma generateStatsEvent_first_record:
  "rollupKind \<noteq> ACT_STATS_ROLLUP_KIND_ONGOING \<Longrightarrow> m_telemetryTenantStats ms \<noteq> [] \<Longrightarrow>
   hd (fst (generateStatsEvent E ms now rollupKind))
     = fst (privateSnapStatsToRecord E ms now rollupKind (snd (hd (m_telemetryTenantStats ms))))"
  by (simp add: generateStatsEvent_def snapStatsToRecord_def Let_def hd_append hd_map)

text \<open>
  Claim C8 against the code. For a tenant row with one record rejected as an invalid client
  message type and two rejected because their validation failed, the record of the row
  that a start rollup returns has \<open>rej = 3\<close> and \<open>r_inv = 2\<close>: each of the five
  statements assigns to \<open>r_inv\<close>, and the last non-zero count stays.
\<close>

theorem r_inv_last_write_wins:
  "map (\<lambda>x. (fst x, rejectedCountReasonDistribution (recordStats (snd x)),
              rejectedCount (recordStats (snd x))))
     (m_telemetryTenantStats rejectedTwice)
     = [(''t1-x'', [(REJECTED_REASON_VALIDATION_FAILED exampleEnumerators, 2),
                    (REJECTED_REASON_INVALID_CLIENT_MESSAGE_TYPE exampleEnumerators, 1)], 3)]
   \<and> (data (hd (fst (generateStatsEvent exampleEnumerators rejectedTwice 2000
                        ACT_STATS_ROLLUP_KIND_START))) ! 0) ''r_inv'' = Some ''2''
   \<and> (data (hd (fst (generateStatsEvent exampleEnumerators rejectedTwice 2000
                        ACT_STATS_ROLLUP_KIND_START))) ! 0) ''rej'' = Some ''3''"
proof -
  have rows: "map (\<lambda>x. (fst x, rejectedCountReasonDistribution (recordStats (snd x)),
              rejectedCount (recordStats (snd x))))
     (m_telemetryTenantStats rejectedTwice)
     = [(''t1-x'', [(REJECTED_REASON_VALIDATION_FAILED exampleEnumerators, 2),
                    (REJECTED_REASON_INVALID_CLIENT_MESSAGE_TYPE exampleEnumerators, 1)], 3)]"
    by (simp add: rejectedTwice_row exampleEnumerators_def)
  have first: "hd (fst (generateStatsEvent exampleEnumerators rejectedTwice 2000
                        ACT_STATS_ROLLUP_KIND_START))
     = fst (privateSnapStatsToRecord exampleEnumerators rejectedTwice 2000 ACT_STATS_ROLLUP_KIND_START
             (newTelemetryStats\<lparr> recordStats := newRecordStats
         \<lparr> rejectedCountReasonDistribution := [(0, 2), (2, 1)], rejectedCount := 3 \<rparr> \<rparr>))"
    by (simp add: generateStatsEvent_first_record rejectedTwice_row)
  have props: "(data (fst (privateSnapStatsToRecord exampleEnumerators rejectedTwice 2000
                 ACT_STATS_ROLLUP_KIND_START
             (newTelemetryStats\<lparr> recordStats := newRecordStats
         \<lparr> rejectedCountReasonDistribution := [(0, 2), (2, 1)], rejectedCount := 3 \<rparr> \<rparr>))) ! 0)
        ''r_inv'' = Some ''2''"
     "(data (fst (privateSnapStatsToRecord exampleEnumerators rejectedTwice 2000
                 ACT_STATS_ROLLUP_KIND_START
             (newTelemetryStats\<lparr> recordStats := newRecordStats
         \<lparr> rejectedCountReasonDistribution := [(0, 2), (2, 1)], rejectedCount := 3 \<rparr> \<rparr>))) ! 0)
        ''rej'' = Some ''3''"
    by (simp_all add: snapshot_defs rejectedTwice_config exampleEnumerators_def exampleConfig_def
          newTelemetryStats_def newRecordStats_def newPackageStats_def
          newOfflineStorageStats_def newLatencyStats_def)
  from rows props show ?thesis by (simp only: first simp_thms)
qed

end
